theory Spec2Isabelle
  imports Main
begin

section \<open>Python values, truthiness and exceptions\<close>

text \<open>
  The views \<open>query\<close> and \<open>query_download\<close> of \<^verbatim>\<open>sql/query.py\<close> orchestrate
  collaborators that live outside the file (engine adapter, privilege evaluator, scheduler,
  configuration, audit store). The collaborators are parameters of the model (record
  \<open>env\<close> below); the control flow, the early returns, the exception handlers and the
  order of the effects are those of the source.

  Scalars that cross the boundary untyped (configuration values, JSON fields, the row limit)
  are values of \<open>pyval\<close>. JSON floats, arrays and objects are not modelled.
\<close>

datatype pyval = PNone | PBool bool | PInt int | PStr string

fun truthy :: "pyval \<Rightarrow> bool" where
  "truthy PNone = False"
| "truthy (PBool b) = b"
| "truthy (PInt n) = (n \<noteq> 0)"
| "truthy (PStr s) = (s \<noteq> [])"

text \<open>
  An exception is a value. \<open>Raised s\<close> is an exception raised by a collaborator, with
  its text; the others are raised by the built-ins the views call themselves.
\<close>

datatype exn = ValueError | TypeError | KeyError string | Raised string

subsection \<open>The built-in \<open>int()\<close>\<close>

text \<open>
  \<open>int(s)\<close> on a string: surrounding whitespace is stripped, then an optional sign and
  a non-empty run of decimal digits, where single underscores may separate digits.
  Anything else raises \<open>ValueError\<close>. Strings are byte strings here, so only the ASCII
  digits and the whitespace below code 128 are recognised; the interpreter's cap on the
  number of digits is left out.
\<close>

definition is_space :: "char \<Rightarrow> bool" where
  "is_space c =
     (let n = (of_char c :: nat) in n = 32 \<or> (9 \<le> n \<and> n \<le> 13) \<or> (28 \<le> n \<and> n \<le> 31))"

definition is_digit :: "char \<Rightarrow> bool" where
  "is_digit c = (let n = (of_char c :: nat) in 48 \<le> n \<and> n \<le> 57)"

definition digit_val :: "char \<Rightarrow> nat" where
  "digit_val c = of_char c - 48"

definition strip :: "string \<Rightarrow> string" where
  "strip s = rev (dropWhile is_space (rev (dropWhile is_space s)))"

fun parse_digits :: "nat \<Rightarrow> string \<Rightarrow> nat option" where
  "parse_digits acc [] = Some acc"
| "parse_digits acc [c] = (if is_digit c then Some (10 * acc + digit_val c) else None)"
| "parse_digits acc (c # d # ds) =
     (if is_digit c then parse_digits (10 * acc + digit_val c) (d # ds)
      else if c = CHR ''_'' \<and> is_digit d then parse_digits (10 * acc + digit_val d) ds
      else None)"

definition parse_nat :: "string \<Rightarrow> nat option" where
  "parse_nat s =
     (case s of
        [] \<Rightarrow> None
      | c # cs \<Rightarrow> if is_digit c then parse_digits (digit_val c) cs else None)"

definition parse_int :: "string \<Rightarrow> int option" where
  "parse_int s =
     (case strip s of
        [] \<Rightarrow> None
      | c # cs \<Rightarrow>
          if c = CHR ''-'' then map_option (\<lambda>n. - int n) (parse_nat cs)
          else if c = CHR ''+'' then map_option int (parse_nat cs)
          else map_option int (parse_nat (c # cs)))"

fun py_int :: "pyval \<Rightarrow> exn + int" where
  "py_int PNone = Inl TypeError"
| "py_int (PBool b) = Inr (if b then 1 else 0)"
| "py_int (PInt n) = Inr n"
| "py_int (PStr s) = (case parse_int s of None \<Rightarrow> Inl ValueError | Some n \<Rightarrow> Inr n)"

subsection \<open>The EXPLAIN test\<close>

text \<open>
  \<^verbatim>\<open>re.match(r"^explain", sql_content.lower())\<close>: the lower-cased statement starts
  with the seven letters. Only the ASCII capitals change under \<open>py_lower\<close>; no other
  character lowers to one of the letters of the prefix in place.
\<close>

definition lower_char :: "char \<Rightarrow> char" where
  "lower_char c =
     (let n = (of_char c :: nat) in if 65 \<le> n \<and> n \<le> 90 then char_of (n + 32) else c)"

definition py_lower :: "string \<Rightarrow> string" where
  "py_lower s = map lower_char s"

definition is_explain :: "string \<Rightarrow> bool" where
  "is_explain s = (take 7 (py_lower s) = ''explain'')"

section \<open>Data model\<close>

record user =
  username :: string
  display :: string

record db_instance =
  inst_id :: int
  inst_name :: string

text \<open>
  The request fields as the views read them. A field that is absent is \<open>None\<close>. The form
  fields of \<open>query\<close> arrive as strings (\<open>PStr\<close>); the body of \<open>query_download\<close>,
  taken here as a JSON object that has been parsed, may carry any scalar in
  \<open>limit_num\<close>. \<open>download_type\<close> is read by \<open>query_download\<close> only. The
  permission decorator of the views runs before them and is not part of the model.
\<close>

record request =
  instance_name :: "string option"
  sql_content :: "string option"
  db_name :: "string option"
  tb_name :: "string option"
  limit_num :: "pyval option"
  schema_name :: "string option"
  download_type :: "string option"
  req_user :: user

text \<open>
  The result set the engine returns, with the attributes the views read or write.
  \<open>error\<close> is tested for truthiness: \<open>None\<close> and the empty string both mean no error.
  Elapsed times are timer readings, kept abstract as naturals.
\<close>

record result_set =
  error :: "string option"
  rows :: "pyval list list"
  column_list :: "string list"
  column_type :: "string list"
  affected_rows :: int
  query_time :: nat
  mask_time :: nat
  mask_rule_hit :: bool
  is_masked :: bool

definition has_error :: "result_set \<Rightarrow> bool" where
  "has_error r = (case error r of None \<Rightarrow> False | Some s \<Rightarrow> s \<noteq> [])"

record query_check_info =
  bad_query :: bool
  has_star :: bool
  check_msg :: string
  filtered_sql :: string

record priv_check_info =
  priv_status :: int
  priv_msg :: string
  priv_limit_num :: int
  priv_check_flag :: bool

record query_log =
  log_username :: string
  log_user_display :: string
  log_db_name :: string
  log_instance_name :: string
  sqllog :: string
  effect_row :: int
  cost_time :: nat
  log_priv_check :: bool
  hit_rule :: bool
  masking :: bool
  query_type :: string

text \<open>
  The messages of the response. The fixed texts of the source are constructors:
  \<open>MsgNoInstance\<close> (the instance is not associated with the user's group),
  \<open>MsgParamsEmpty\<close> (a submitted parameter may be empty), \<open>MsgMaskingError e\<close>
  (masking failed, followed by the masking error), \<open>MsgMaskingException x\<close> (masking
  raised, contact the administrator, followed by the exception) and \<open>MsgQueryException x\<close>
  (the query raised, followed by the exception). \<open>MsgText s\<close> carries a text a
  collaborator produced.
\<close>

datatype msg =
    MsgOk
  | MsgNoInstance
  | MsgParamsEmpty
  | MsgText string
  | MsgMaskingError string
  | MsgMaskingException exn
  | MsgQueryException exn

text \<open>
  \<open>result["data"]\<close>: empty at first, later the attribute dictionary of a result set,
  and the key \<open>seconds_behind_master\<close> added on top.
\<close>

record data_dict =
  result_fields :: "result_set option"
  seconds_behind :: "pyval option"

record payload =
  status :: int
  msg :: msg
  data :: data_dict

definition result0 :: payload where
  "result0 = \<lparr>status = 0, msg = MsgOk, data = \<lparr>result_fields = None, seconds_behind = None\<rparr>\<rparr>"

text \<open>
  What the caller receives: the JSON rendering of \<open>result\<close>, an export of the rows, or an
  exception that leaves the view unhandled (no \<open>status\<close>/\<open>msg\<close> payload at all).
\<close>

datatype response =
    Json payload
  | Excel "string list" "pyval list list"
  | TextFile string
  | Unhandled exn

text \<open>
  What a masking call does. \<open>query_masking\<close> is handed the result set object itself
  and answers with an object or raises; it may have written to the object it was handed.
  The first component is the exception, or the object it returned: the one it was handed
  (\<open>Itself\<close>) or another one. The second component is the state in which the call left
  the object it was handed.
\<close>

datatype returned = Itself | Another result_set

type_synonym masked = "(exn + returned) \<times> result_set"

text \<open>
  The history of a run: the calls to the collaborators in the order they are made, each
  with its arguments and with what it returned or raised (\<open>Inl\<close> or \<open>Some\<close> is the
  exception). \<open>EvLogWarning sql\<close> is the warning that a masking failure was let through,
  \<open>EvLogMaskingError\<close> the error logged when masking raised, \<open>EvLogQueryError\<close>
  the error logged by the outer handler, with the statement.
\<close>

datatype event =
    EvQueryCheck string string "exn + query_check_info"
  | EvPrivCheck string string int "exn + priv_check_info"
  | EvFilterSql string int "exn + string"
  | EvReplaceLimit string pyval "exn + string"
  | EvGetConnection string "exn + int option"
  | EvAddSchedule string int int int "exn option"
  | EvExecute string string pyval "exn + result_set"
  | EvDelSchedule string "exn option"
  | EvMask string string result_set masked
  | EvLogWarning string
  | EvLogMaskingError exn
  | EvLogQueryError string exn
  | EvCloseOldConnections
  | EvAuditSave query_log "exn option"

record outcome =
  response :: response
  trace :: "event list"

section \<open>Collaborators\<close>

text \<open>
  The engine adapter returned by \<open>get_engine\<close>. Every call may raise (\<open>Inl\<close>).
  \<open>get_connection\<close> yields the \<open>thread_id\<close> the engine exposes afterwards.
  \<open>query_masking\<close> is handed the object \<open>query_result\<close> and may write to it.
\<close>

record engine =
  query_check :: "string \<Rightarrow> string \<Rightarrow> exn + query_check_info"
  filter_sql :: "string \<Rightarrow> int \<Rightarrow> exn + string"
  get_connection :: "string \<Rightarrow> exn + int option"
  seconds_behind_master :: "exn + pyval"
  engine_query ::
    "string \<Rightarrow> string \<Rightarrow> pyval \<Rightarrow> string option \<Rightarrow> string option \<Rightarrow> int \<Rightarrow> exn + result_set"
  query_masking :: "string \<Rightarrow> string \<Rightarrow> result_set \<Rightarrow> masked"

text \<open>
  Everything else the views import. \<open>config_get key default\<close> is \<open>SysConfig().get\<close>;
  \<open>time_time\<close> is the rendering of the clock in the schedule name and \<open>datetime_now\<close>
  the clock in seconds; \<open>query_cost\<close> and \<open>mask_cost\<close> are the readings of the two
  timers; \<open>connection_stale\<close> is the test
  \<^verbatim>\<open>connection.connection and not connection.is_usable()\<close>.
\<close>

record env =
  user_instances :: "user \<Rightarrow> string option \<Rightarrow> db_instance option"
  config_get :: "string \<Rightarrow> pyval option \<Rightarrow> pyval"
  get_engine :: "db_instance \<Rightarrow> exn + engine"
  query_priv_check :: "user \<Rightarrow> db_instance \<Rightarrow> string \<Rightarrow> string \<Rightarrow> int \<Rightarrow> exn + priv_check_info"
  add_kill_conn_schedule :: "string \<Rightarrow> int \<Rightarrow> int \<Rightarrow> int \<Rightarrow> exn option"
  del_schedule :: "string \<Rightarrow> exn option"
  replace_limit :: "string \<Rightarrow> pyval \<Rightarrow> exn + string"
  generate_insert_sql ::
    "string \<Rightarrow> string list \<Rightarrow> string list \<Rightarrow> pyval list list \<Rightarrow> nat \<Rightarrow> exn + string list"
  query_log_save :: "query_log \<Rightarrow> exn option"
  time_time :: string
  datetime_now :: int
  query_cost :: nat
  mask_cost :: nat
  connection_stale :: bool

section \<open>The blocks of the two views\<close>

text \<open>
  Both views run the same statements between \<^verbatim>\<open>try:\<close> and \<^verbatim>\<open>except Exception\<close>,
  apart from the download ceiling; each run of shared lines is one definition, which yields
  the calls it made. A block ends by raising (\<open>Raise\<close>, with the value \<open>sql_content\<close>
  has at that point, which the handler logs), by returning a rejection from inside the
  \<^verbatim>\<open>try\<close> (\<open>Return\<close>), or by falling through to the next statement (\<open>Go\<close>).
\<close>

datatype 'a flow = Raise exn string | Return | Go 'a

text \<open>Lines 57-83 and 246-274: engine, statement check, privilege check.\<close>

definition check_block ::
  "env \<Rightarrow> user \<Rightarrow> db_instance \<Rightarrow> string \<Rightarrow> string \<Rightarrow> int \<Rightarrow> payload
   \<Rightarrow> (engine \<times> string \<times> int \<times> bool) flow \<times> payload \<times> event list" where
  "check_block env u inst db sql lim res =
     (case get_engine env inst of
        Inl e \<Rightarrow> (Raise e sql, res, [])
      | Inr eng \<Rightarrow>
          (let checked = query_check eng db sql;
               tr1 = [EvQueryCheck db sql checked]
           in case checked of
                Inl e \<Rightarrow> (Raise e sql, res, tr1)
              | Inr info \<Rightarrow>
                  if bad_query info
                  then (Return, res\<lparr>status := 1, msg := MsgText (check_msg info)\<rparr>, tr1)
                  else if has_star info \<and> config_get env ''disable_star'' None = PBool True
                  then (Return, res\<lparr>status := 1, msg := MsgText (check_msg info)\<rparr>, tr1)
                  else
                    (let sql1 = filtered_sql info;
                         decided = query_priv_check env u inst db sql1 lim;
                         tr2 = tr1 @ [EvPrivCheck db sql1 lim decided]
                     in case decided of
                          Inl e \<Rightarrow> (Raise e sql1, res, tr2)
                        | Inr p \<Rightarrow>
                            if priv_status p = 0
                            then (Go (eng, sql1, priv_limit_num p, priv_check_flag p), res, tr2)
                            else (Return,
                                  res\<lparr>status := priv_status p, msg := MsgText (priv_msg p)\<rparr>,
                                  tr2))))"

text \<open>
  Lines 91-115 and 285-309: connection, timeout schedule, execution, schedule deletion.
  \<^verbatim>\<open>if thread_id:\<close> is a truthiness test: a thread id that is \<open>None\<close> or \<open>0\<close> arms
  nothing. There is no \<^verbatim>\<open>finally\<close>: when a call raises, the statements after it do
  not run.
\<close>

definition thread_truthy :: "int option \<Rightarrow> bool" where
  "thread_truthy t = (case t of None \<Rightarrow> False | Some n \<Rightarrow> n \<noteq> 0)"

text \<open>Lines 95-100: the schedule is registered only for a truthy thread id.\<close>

definition arm ::
  "env \<Rightarrow> db_instance \<Rightarrow> int option \<Rightarrow> int \<Rightarrow> exn option \<times> event list" where
  "arm env inst thread_id max_execution_time =
     (if thread_truthy thread_id
      then
        (let schedule_name = ''query-'' @ time_time env;
             run_date = datetime_now env + max_execution_time;
             added = add_kill_conn_schedule env schedule_name run_date (inst_id inst)
                       (the thread_id)
         in (added,
             [EvAddSchedule schedule_name run_date (inst_id inst) (the thread_id) added]))
      else (None, []))"

text \<open>Lines 114-115: the schedule is deleted under the same test.\<close>

definition disarm :: "env \<Rightarrow> int option \<Rightarrow> exn option \<times> event list" where
  "disarm env thread_id =
     (if thread_truthy thread_id
      then
        (let schedule_name = ''query-'' @ time_time env;
             deleted = del_schedule env schedule_name
         in (deleted, [EvDelSchedule schedule_name deleted]))
      else (None, []))"

definition execute_block ::
  "env \<Rightarrow> engine \<Rightarrow> db_instance \<Rightarrow> request \<Rightarrow> string \<Rightarrow> string \<Rightarrow> pyval
   \<Rightarrow> (result_set \<times> pyval) flow \<times> event list" where
  "execute_block env eng inst req db sql lim =
     (let connected = get_connection eng db;
          tr1 = [EvGetConnection db connected]
      in case connected of
           Inl e \<Rightarrow> (Raise e sql, tr1)
         | Inr thread_id \<Rightarrow>
             (case py_int (config_get env ''max_execution_time'' (Some (PInt 60))) of
                Inl e \<Rightarrow> (Raise e sql, tr1)
              | Inr max_execution_time \<Rightarrow>
                  (case arm env inst thread_id max_execution_time of
                     (Some e, armed) \<Rightarrow> (Raise e sql, tr1 @ armed)
                   | (None, armed) \<Rightarrow>
                       (case seconds_behind_master eng of
                          Inl e \<Rightarrow> (Raise e sql, tr1 @ armed)
                        | Inr sbm \<Rightarrow>
                            (let executed = engine_query eng db sql lim (schema_name req)
                                              (tb_name req) (max_execution_time * 1000);
                                 tr2 = tr1 @ armed @ [EvExecute db sql lim executed]
                             in case executed of
                                  Inl e \<Rightarrow> (Raise e sql, tr2)
                                | Inr qr0 \<Rightarrow>
                                    (case disarm env thread_id of
                                       (Some e, disarmed) \<Rightarrow> (Raise e sql, tr2 @ disarmed)
                                     | (None, disarmed) \<Rightarrow>
                                         (Go (qr0\<lparr>query_time := query_cost env\<rparr>, sbm),
                                          tr2 @ disarmed)))))))"

text \<open>
  Lines 118-160 and 312-354: the execution error, or the masking stage with its fallback.
  \<open>masking_result\<close> and \<open>query_result\<close> are names for objects, and they may name the
  same one. \<open>masking_result_of\<close> is the object the call returned, after line 128 stored
  the elapsed time on it; \<open>query_result_of\<close> is \<open>query_result\<close> at that point, which
  holds that elapsed time too when the call returned the object it was handed. The block
  yields \<open>query_result\<close> as it is afterwards (on the lenient path its \<open>error\<close> is set
  to \<open>None\<close>), the response and its calls. The inner handler catches every exception of
  the masking call, so the block itself never raises.
\<close>

definition masking_result_of :: "nat \<Rightarrow> returned \<Rightarrow> result_set \<Rightarrow> result_set" where
  "masking_result_of cost ret left =
     (case ret of Itself \<Rightarrow> left | Another m \<Rightarrow> m)\<lparr>mask_time := cost\<rparr>"

definition query_result_of :: "nat \<Rightarrow> masked \<Rightarrow> result_set" where
  "query_result_of cost out =
     (case out of
        (Inr Itself, left) \<Rightarrow> left\<lparr>mask_time := cost\<rparr>
      | (_, left) \<Rightarrow> left)"

definition masking_block ::
  "env \<Rightarrow> engine \<Rightarrow> string \<Rightarrow> string \<Rightarrow> result_set \<Rightarrow> payload
   \<Rightarrow> result_set \<times> payload \<times> event list" where
  "masking_block env eng db sql qr res =
     (if has_error qr
      then (qr, res\<lparr>status := 1, msg := MsgText (the (error qr))\<rparr>, [])
      else if truthy (config_get env ''data_masking'' None)
      then
        (let out = query_masking eng db sql qr;
             tr1 = [EvMask db sql qr out];
             query_result = query_result_of (mask_cost env) out
         in case out of
              (Inr ret, left) \<Rightarrow>
                (let masking_result = masking_result_of (mask_cost env) ret left in
                 if has_error masking_result
                 then
                   if truthy (config_get env ''query_check'' None)
                   then (query_result,
                         res\<lparr>status := 1,
                             msg := MsgMaskingError (the (error masking_result))\<rparr>,
                         tr1)
                   else
                     (let qr1 = query_result\<lparr>error := None\<rparr> in
                      (qr1, res\<lparr>data := (data res)\<lparr>result_fields := Some qr1\<rparr>\<rparr>,
                       tr1 @ [EvLogWarning sql]))
                 else (query_result,
                       res\<lparr>data := (data res)\<lparr>result_fields := Some masking_result\<rparr>\<rparr>,
                       tr1))
            | (Inl e, left) \<Rightarrow>
                (let tr2 = tr1 @ [EvLogMaskingError e] in
                 if truthy (config_get env ''query_check'' None)
                 then (query_result, res\<lparr>status := 1, msg := MsgMaskingException e\<rparr>, tr2)
                 else
                   (let qr1 = query_result\<lparr>error := None\<rparr> in
                    (qr1, res\<lparr>data := (data res)\<lparr>result_fields := Some qr1\<rparr>\<rparr>,
                     tr2 @ [EvLogWarning sql]))))
      else (qr, res\<lparr>data := (data res)\<lparr>result_fields := Some qr\<rparr>\<rparr>, []))"

text \<open>
  Lines 163-187 and 357-381: the logged row count and the audit record. \<open>lim\<close> is the
  value the variable \<open>limit_num\<close> holds at this point; \<open>kind\<close> is the \<open>query_type\<close>
  of the view.
\<close>

definition make_log ::
  "user \<Rightarrow> db_instance \<Rightarrow> string \<Rightarrow> string \<Rightarrow> string \<Rightarrow> int \<Rightarrow> bool \<Rightarrow> result_set \<Rightarrow> query_log" where
  "make_log u inst kind db sql n pc qr =
     \<lparr>log_username = username u, log_user_display = display u, log_db_name = db,
      log_instance_name = inst_name inst, sqllog = sql, effect_row = n,
      cost_time = query_time qr, log_priv_check = pc, hit_rule = mask_rule_hit qr,
      masking = is_masked qr, query_type = kind\<rparr>"

definition save_log ::
  "env \<Rightarrow> string \<Rightarrow> query_log \<Rightarrow> payload \<Rightarrow> event list \<Rightarrow> unit flow \<times> payload \<times> event list" where
  "save_log env sql lg res tr =
     (let saved = query_log_save env lg;
          tr1 = tr @ [EvAuditSave lg saved]
      in case saved of
           Some e \<Rightarrow> (Raise e sql, res, tr1)
         | None \<Rightarrow> (Go (), res, tr1))"

definition audit_block ::
  "env \<Rightarrow> user \<Rightarrow> db_instance \<Rightarrow> string \<Rightarrow> string \<Rightarrow> string \<Rightarrow> pyval \<Rightarrow> bool \<Rightarrow> pyval
   \<Rightarrow> result_set \<Rightarrow> payload \<Rightarrow> unit flow \<times> payload \<times> event list" where
  "audit_block env u inst kind db sql lim pc sbm qr res =
     (if \<not> has_error qr
      then
        (let res1 = res\<lparr>data := (data res)\<lparr>seconds_behind := Some sbm\<rparr>\<rparr> in
         case py_int lim of
           Inl e \<Rightarrow> (Raise e sql, res1, [])
         | Inr n \<Rightarrow>
             (let n1 = (if n = 0 then affected_rows qr else min n (affected_rows qr));
                  tr1 = (if connection_stale env then [EvCloseOldConnections] else [])
              in save_log env sql (make_log u inst kind db sql n1 pc qr) res1 tr1))
      else save_log env sql (make_log u inst kind db sql 0 pc qr) res [])"

section \<open>The view \<open>query\<close>\<close>

text \<open>The body of the \<^verbatim>\<open>try\<close> of \<open>query\<close>, lines 57-187.\<close>

definition query_try ::
  "env \<Rightarrow> request \<Rightarrow> db_instance \<Rightarrow> string \<Rightarrow> string \<Rightarrow> int \<Rightarrow> unit flow \<times> payload \<times> event list" where
  "query_try env req inst sql0 db lim0 =
     (case check_block env (req_user req) inst db sql0 lim0 result0 of
        (Raise e s, res, tr) \<Rightarrow> (Raise e s, res, tr)
      | (Return, res, tr) \<Rightarrow> (Return, res, tr)
      | (Go (eng, sql1, lim1, pc), res, tr) \<Rightarrow>
          (let lim2 = (if is_explain sql1 then 0 else lim1);
               filtered = filter_sql eng sql1 lim2;
               tr1 = tr @ [EvFilterSql sql1 lim2 filtered]
           in case filtered of
                Inl e \<Rightarrow> (Raise e sql1, res, tr1)
              | Inr sql2 \<Rightarrow>
                  (case execute_block env eng inst req db sql2 (PInt lim2) of
                     (Raise e s, tr2) \<Rightarrow> (Raise e s, res, tr1 @ tr2)
                   | (Return, tr2) \<Rightarrow> (Return, res, tr1 @ tr2)
                   | (Go (qr, sbm), tr2) \<Rightarrow>
                       (case masking_block env eng db sql2 qr res of
                          (qr1, res1, tr3) \<Rightarrow>
                            (case audit_block env (req_user req) inst ''online_query'' db sql2
                                    (PInt lim2) pc sbm qr1 res1 of
                               (f, res2, tr4) \<Rightarrow> (f, res2, tr1 @ tr2 @ tr3 @ tr4))))))"

text \<open>
  Lines 34-54 come before the \<^verbatim>\<open>try\<close>: an exception of \<open>int()\<close> there leaves the
  view. The handler of lines 188-194 turns every exception of the body into the generic
  failure; both ways out of the view render \<open>result\<close> as JSON.
\<close>

definition limit_arg :: "request \<Rightarrow> pyval" where
  "limit_arg req = (case limit_num req of None \<Rightarrow> PInt 0 | Some v \<Rightarrow> v)"

definition reject :: "msg \<Rightarrow> outcome" where
  "reject m = \<lparr>response = Json (result0\<lparr>status := 1, msg := m\<rparr>), trace = []\<rparr>"

definition query :: "env \<Rightarrow> request \<Rightarrow> outcome" where
  "query env req =
     (case py_int (limit_arg req) of
        Inl e \<Rightarrow> \<lparr>response = Unhandled e, trace = []\<rparr>
      | Inr lim0 \<Rightarrow>
          (case user_instances env (req_user req) (instance_name req) of
             None \<Rightarrow> reject MsgNoInstance
           | Some inst \<Rightarrow>
               (case (sql_content req, db_name req, instance_name req) of
                  (Some sql0, Some db, Some _) \<Rightarrow>
                    (case query_try env req inst sql0 db lim0 of
                       (Raise e s, res, tr) \<Rightarrow>
                         \<lparr>response = Json (res\<lparr>status := 1, msg := MsgQueryException e\<rparr>),
                          trace = tr @ [EvLogQueryError s e]\<rparr>
                     | (_, res, tr) \<Rightarrow> \<lparr>response = Json res, trace = tr\<rparr>)
                | _ \<Rightarrow> reject MsgParamsEmpty)))"

section \<open>The view \<open>query_download\<close>\<close>

text \<open>
  The body of the \<^verbatim>\<open>try\<close> of \<open>query_download\<close>, lines 246-381. After
  \<open>filter_sql\<close> the variable \<open>limit_num\<close> is overwritten with the configured
  \<open>download_limit\<close>, and \<open>replace_limit\<close> rewrites the statement with it.
\<close>

definition query_download_try ::
  "env \<Rightarrow> request \<Rightarrow> db_instance \<Rightarrow> string \<Rightarrow> string \<Rightarrow> int \<Rightarrow> unit flow \<times> payload \<times> event list" where
  "query_download_try env req inst sql0 db lim0 =
     (case check_block env (req_user req) inst db sql0 lim0 result0 of
        (Raise e s, res, tr) \<Rightarrow> (Raise e s, res, tr)
      | (Return, res, tr) \<Rightarrow> (Return, res, tr)
      | (Go (eng, sql1, lim1, pc), res, tr) \<Rightarrow>
          (let lim2 = (if is_explain sql1 then 0 else lim1);
               filtered = filter_sql eng sql1 lim2;
               tr1 = tr @ [EvFilterSql sql1 lim2 filtered]
           in case filtered of
                Inl e \<Rightarrow> (Raise e sql1, res, tr1)
              | Inr sql2 \<Rightarrow>
                  (let lim3 = config_get env ''download_limit'' None;
                       replaced = replace_limit env sql2 lim3;
                       tr2 = tr1 @ [EvReplaceLimit sql2 lim3 replaced]
                   in case replaced of
                        Inl e \<Rightarrow> (Raise e sql2, res, tr2)
                      | Inr sql3 \<Rightarrow>
                          (case execute_block env eng inst req db sql3 lim3 of
                             (Raise e s, tr3) \<Rightarrow> (Raise e s, res, tr2 @ tr3)
                           | (Return, tr3) \<Rightarrow> (Return, res, tr2 @ tr3)
                           | (Go (qr, sbm), tr3) \<Rightarrow>
                               (case masking_block env eng db sql3 qr res of
                                  (qr1, res1, tr4) \<Rightarrow>
                                    (case audit_block env (req_user req) inst ''download_query''
                                            db sql3 lim3 pc sbm qr1 res1 of
                                       (f, res2, tr5) \<Rightarrow>
                                         (f, res2, tr2 @ tr3 @ tr4 @ tr5)))))))"

text \<open>
  Lines 391-444: the export reads \<open>column_list\<close> (and \<open>column_type\<close>, \<open>rows\<close>) from
  \<open>result["data"]\<close>; on a dictionary that never received a result set the lookup raises
  \<open>KeyError\<close> outside every handler. The spreadsheet and the temporary text file are
  represented by their contents.
\<close>

definition export :: "env \<Rightarrow> request \<Rightarrow> payload \<Rightarrow> response" where
  "export env req res =
     (case result_fields (data res) of
        None \<Rightarrow> Unhandled (KeyError ''column_list'')
      | Some r \<Rightarrow>
          if (case download_type req of None \<Rightarrow> ''excel'' | Some t \<Rightarrow> t) = ''excel''
          then Excel (column_list r) (rows r)
          else
            (case generate_insert_sql env ''table_name'' (column_list r) (column_type r)
                    (rows r) 10 of
               Inl e \<Rightarrow> Unhandled e
             | Inr lines \<Rightarrow> TextFile (concat lines)))"

definition query_download :: "env \<Rightarrow> request \<Rightarrow> outcome" where
  "query_download env req =
     (case py_int (limit_arg req) of
        Inl e \<Rightarrow> \<lparr>response = Unhandled e, trace = []\<rparr>
      | Inr lim0 \<Rightarrow>
          (case user_instances env (req_user req) (instance_name req) of
             None \<Rightarrow> reject MsgNoInstance
           | Some inst \<Rightarrow>
               (case (sql_content req, db_name req, instance_name req) of
                  (Some sql0, Some db, Some _) \<Rightarrow>
                    (case query_download_try env req inst sql0 db lim0 of
                       (Raise e s, res, tr) \<Rightarrow>
                         \<lparr>response = Json (res\<lparr>status := 1, msg := MsgQueryException e\<rparr>),
                          trace = tr @ [EvLogQueryError s e]\<rparr>
                     | (Return, res, tr) \<Rightarrow> \<lparr>response = Json res, trace = tr\<rparr>
                     | (Go _, res, tr) \<Rightarrow> \<lparr>response = export env req res, trace = tr\<rparr>)
                | _ \<Rightarrow> reject MsgParamsEmpty)))"

section \<open>Reading a history\<close>

text \<open>
  The kind of a call, and the projections of a history the statements below use: the names
  of the schedules that were registered and of those \<open>del_schedule\<close> was called for, the
  row limits handed to the engine, and the row counts of the audit records.
\<close>

datatype kind =
    KQueryCheck | KPrivCheck | KFilterSql | KReplaceLimit | KGetConnection | KAddSchedule
  | KExecute | KDelSchedule | KMask | KLogWarning | KLogMaskingError | KLogQueryError
  | KCloseOldConnections | KAuditSave

fun kind_of :: "event \<Rightarrow> kind" where
  "kind_of (EvQueryCheck _ _ _) = KQueryCheck"
| "kind_of (EvPrivCheck _ _ _ _) = KPrivCheck"
| "kind_of (EvFilterSql _ _ _) = KFilterSql"
| "kind_of (EvReplaceLimit _ _ _) = KReplaceLimit"
| "kind_of (EvGetConnection _ _) = KGetConnection"
| "kind_of (EvAddSchedule _ _ _ _ _) = KAddSchedule"
| "kind_of (EvExecute _ _ _ _) = KExecute"
| "kind_of (EvDelSchedule _ _) = KDelSchedule"
| "kind_of (EvMask _ _ _ _) = KMask"
| "kind_of (EvLogWarning _) = KLogWarning"
| "kind_of (EvLogMaskingError _) = KLogMaskingError"
| "kind_of (EvLogQueryError _ _) = KLogQueryError"
| "kind_of EvCloseOldConnections = KCloseOldConnections"
| "kind_of (EvAuditSave _ _) = KAuditSave"

fun added :: "event \<Rightarrow> string list" where
  "added (EvAddSchedule n _ _ _ _) = [n]"
| "added _ = []"

fun deleted :: "event \<Rightarrow> string list" where
  "deleted (EvDelSchedule n _) = [n]"
| "deleted _ = []"

fun exec_limit :: "event \<Rightarrow> pyval list" where
  "exec_limit (EvExecute _ _ l _) = [l]"
| "exec_limit _ = []"

fun logged :: "event \<Rightarrow> int list" where
  "logged (EvAuditSave lg _) = [effect_row lg]"
| "logged _ = []"

definition schedules_added :: "event list \<Rightarrow> string list" where
  "schedules_added tr = concat (map added tr)"

definition schedules_deleted :: "event list \<Rightarrow> string list" where
  "schedules_deleted tr = concat (map deleted tr)"

definition executed_limits :: "event list \<Rightarrow> pyval list" where
  "executed_limits tr = concat (map exec_limit tr)"

definition logged_rows :: "event list \<Rightarrow> int list" where
  "logged_rows tr = concat (map logged tr)"


text \<open>
  The masking stage failed: the call raised, or the object it returned carries an error.
\<close>

definition masking_failed :: "masked \<Rightarrow> bool" where
  "masking_failed out =
     (case out of
        (Inl e, left) \<Rightarrow> True
      | (Inr ret, left) \<Rightarrow> has_error (masking_result_of 0 ret left))"

text \<open>
  \<open>query_result\<close> as the masking stage leaves it for line 163: the object after the
  call, with its \<open>error\<close> set to \<open>None\<close> where the failure was let through.
\<close>

definition left_for_audit :: "env \<Rightarrow> masked \<Rightarrow> result_set" where
  "left_for_audit env out =
     (if masking_failed out \<and> \<not> truthy (config_get env ''query_check'' None)
      then (query_result_of (mask_cost env) out)\<lparr>error := None\<rparr>
      else query_result_of (mask_cost env) out)"

section \<open>Concrete collaborators\<close>

text \<open>
  Collaborators for the concrete runs: a configuration backed by a list of pairs, an engine
  that accepts every statement unchanged, opens thread \<open>t\<close>, answers every execution with
  \<open>executed\<close> and masks with \<open>masker\<close>, and an environment around it whose privilege
  evaluator grants the limit \<open>granted\<close>. The masker of \<open>stub_engine\<close> answers with a
  new object and leaves the one it was handed alone; the masker of \<open>writing_engine\<close> is
  any masking behaviour.
\<close>

definition stub_config :: "(string \<times> pyval) list \<Rightarrow> string \<Rightarrow> pyval option \<Rightarrow> pyval" where
  "stub_config kvs k d =
     (case map_of kvs k of
        Some v \<Rightarrow> v
      | None \<Rightarrow> (case d of None \<Rightarrow> PNone | Some v \<Rightarrow> v))"

definition stub_rows :: result_set where
  "stub_rows =
     \<lparr>error = None, rows = [[PInt 1, PStr ''ann''], [PInt 2, PStr ''bob'']],
      column_list = [''id'', ''name''], column_type = [''int'', ''varchar''],
      affected_rows = 37, query_time = 0, mask_time = 0, mask_rule_hit = False,
      is_masked = False\<rparr>"

definition writing_engine ::
  "bool \<Rightarrow> int option \<Rightarrow> exn + result_set \<Rightarrow> (result_set \<Rightarrow> masked) \<Rightarrow> engine" where
  "writing_engine star t executed masker =
     \<lparr>query_check = (\<lambda>db sql. Inr \<lparr>bad_query = False, has_star = star,
                                    check_msg = ''no star please'', filtered_sql = sql\<rparr>),
      filter_sql = (\<lambda>sql n. Inr sql),
      get_connection = (\<lambda>db. Inr t),
      seconds_behind_master = Inr PNone,
      engine_query = (\<lambda>db sql lim sch tb ms. executed),
      query_masking = (\<lambda>db sql r. masker r)\<rparr>"

definition stub_engine ::
  "bool \<Rightarrow> int option \<Rightarrow> exn + result_set \<Rightarrow> (result_set \<Rightarrow> exn + result_set) \<Rightarrow> engine" where
  "stub_engine star t executed masker =
     writing_engine star t executed
       (\<lambda>r. case masker r of Inl e \<Rightarrow> (Inl e, r) | Inr m \<Rightarrow> (Inr (Another m), r))"

definition stub_env :: "(string \<times> pyval) list \<Rightarrow> int \<Rightarrow> engine \<Rightarrow> env" where
  "stub_env kvs granted eng =
     \<lparr>user_instances =
        (\<lambda>u n. if n = Some ''mysql01'' then Some \<lparr>inst_id = 1, inst_name = ''mysql01''\<rparr>
               else None),
      config_get = stub_config kvs,
      get_engine = (\<lambda>i. Inr eng),
      query_priv_check =
        (\<lambda>u i db sql n. Inr \<lparr>priv_status = 0, priv_msg = ''ok'', priv_limit_num = granted,
                               priv_check_flag = True\<rparr>),
      add_kill_conn_schedule = (\<lambda>n r i t. None),
      del_schedule = (\<lambda>n. None),
      replace_limit = (\<lambda>s l. Inr s),
      generate_insert_sql = (\<lambda>t c ty r b. Inr []),
      query_log_save = (\<lambda>l. None),
      time_time = ''1700000000.5'',
      datetime_now = 1700000000,
      query_cost = 3,
      mask_cost = 1,
      connection_stale = False\<rparr>"

text \<open>
  Collaborators that fail or write: an audit store whose \<open>save\<close> raises, a generator
  of insert statements that raises, a masking call that writes an error on the object it
  was handed and returns that object, and one that overwrites the rows of the object and
  then raises.
\<close>

definition failing_store :: "query_log \<Rightarrow> exn option" where
  "failing_store lg = Some (Raised ''audit store down'')"

definition failing_generator ::
  "string \<Rightarrow> string list \<Rightarrow> string list \<Rightarrow> pyval list list \<Rightarrow> nat \<Rightarrow> exn + string list" where
  "failing_generator t c ty r b = Inl (Raised ''cannot render'')"

definition raising_masker :: "result_set \<Rightarrow> exn + result_set" where
  "raising_masker r = Inl (Raised ''no masking rule'')"

definition error_writing_masker :: "result_set \<Rightarrow> masked" where
  "error_writing_masker r = (Inr Itself, r\<lparr>error := Some ''no masking rule''\<rparr>)"

definition row_writing_masker :: "result_set \<Rightarrow> masked" where
  "row_writing_masker r = (Inl (Raised ''no masking rule''), r\<lparr>rows := [[PStr ''***'']]\<rparr>)"

definition stub_request :: "string \<Rightarrow> string \<Rightarrow> request" where
  "stub_request sql lim =
     \<lparr>instance_name = Some ''mysql01'', sql_content = Some sql, db_name = Some ''sales'',
      tb_name = None, limit_num = Some (PStr lim), schema_name = None, download_type = None,
      req_user = \<lparr>username = ''u1'', display = ''User One''\<rparr>\<rparr>"

section \<open>Facts about the blocks\<close>

lemma has_error_query_time: "has_error (r\<lparr>query_time := c\<rparr>) = has_error r"
  by (simp add: has_error_def)

lemma has_error_mask_time: "has_error (r\<lparr>mask_time := c\<rparr>) = has_error r"
  by (simp add: has_error_def)

lemma has_error_cleared: "\<not> has_error (r\<lparr>error := None\<rparr>)"
  by (simp add: has_error_def)

lemma check_block_kinds:
  "check_block env u inst db sql lim res = (f, res', tr) \<Longrightarrow> ev \<in> set tr \<Longrightarrow>
   kind_of ev = KQueryCheck \<or> kind_of ev = KPrivCheck"
  by (auto simp: check_block_def Let_def split: sum.splits if_splits)

lemma execute_block_kinds:
  "execute_block env eng inst req db sql lim = (f, tr) \<Longrightarrow> ev \<in> set tr \<Longrightarrow>
   kind_of ev = KGetConnection \<or> kind_of ev = KAddSchedule \<or> kind_of ev = KExecute
   \<or> kind_of ev = KDelSchedule"
  by (auto simp: execute_block_def arm_def disarm_def Let_def
      split: sum.splits if_splits option.splits prod.splits)

lemma masking_block_kinds:
  "masking_block env eng db sql qr res = (qr', res', tr) \<Longrightarrow> ev \<in> set tr \<Longrightarrow>
   kind_of ev = KMask \<or> kind_of ev = KLogWarning \<or> kind_of ev = KLogMaskingError"
  by (auto simp: masking_block_def Let_def split: sum.splits if_splits prod.splits)

lemma audit_block_kinds:
  "audit_block env u inst k db sql lim pc sbm qr res = (f, res', tr) \<Longrightarrow> ev \<in> set tr \<Longrightarrow>
   kind_of ev = KCloseOldConnections \<or> kind_of ev = KAuditSave"
  by (auto simp: audit_block_def save_log_def Let_def split: sum.splits if_splits option.splits)

lemma check_block_go:
  "check_block env u inst db sql lim res = (Go (eng, sql1, lim1, pc), res', tr) \<Longrightarrow>
   res' = res \<and> (\<exists>p. EvPrivCheck db sql1 lim (Inr p) \<in> set tr \<and> lim1 = priv_limit_num p
     \<and> pc = priv_check_flag p)"
  by (auto simp: check_block_def Let_def split: sum.splits if_splits)

lemma check_block_raise:
  "check_block env u inst db sql lim res = (Raise e s, res', tr) \<Longrightarrow> res' = res"
  by (auto simp: check_block_def Let_def split: sum.splits if_splits)



lemma execute_block_exec:
  "execute_block env eng inst req db sql lim = (f, tr) \<Longrightarrow> EvExecute d s l out \<in> set tr \<Longrightarrow>
   d = db \<and> s = sql \<and> l = lim"
  by (auto simp: execute_block_def arm_def disarm_def Let_def
      split: sum.splits if_splits option.splits prod.splits)

lemma execute_block_go:
  "execute_block env eng inst req db sql lim = (Go (qr, sbm), tr) \<Longrightarrow>
   \<exists>qr0. EvExecute db sql lim (Inr qr0) \<in> set tr \<and> qr = qr0\<lparr>query_time := query_cost env\<rparr>"
  by (auto simp: execute_block_def arm_def disarm_def Let_def
      split: sum.splits if_splits option.splits prod.splits)


lemma execute_block_schedules:
  "execute_block env eng inst req db sql lim = (f, tr) \<Longrightarrow>
   EvGetConnection d (Inr t) \<in> set tr \<Longrightarrow> thread_truthy t \<Longrightarrow>
   EvExecute d' s l out \<in> set tr \<Longrightarrow>
   schedules_added tr = [''query-'' @ time_time env]
   \<and> schedules_deleted tr = (case out of Inl e \<Rightarrow> [] | Inr qr \<Rightarrow> [''query-'' @ time_time env])"
  by (auto simp: execute_block_def arm_def disarm_def Let_def schedules_added_def
        schedules_deleted_def
      split: sum.splits if_splits option.splits prod.splits)

lemma has_error_masking_result:
  "has_error (masking_result_of c ret left) = has_error (masking_result_of 0 ret left)"
  by (simp add: masking_result_of_def has_error_def split: returned.splits)

lemma masking_block_mask:
  "masking_block env eng db sql qr res = (qr', res', tr) \<Longrightarrow> EvMask d s r out \<in> set tr \<Longrightarrow>
   d = db \<and> s = sql \<and> r = qr \<and> \<not> has_error qr \<and> truthy (config_get env ''data_masking'' None)"
  by (auto simp: masking_block_def Let_def split: sum.splits if_splits prod.splits)

lemma masking_block_strict:
  "masking_block env eng db sql qr res = (qr', res', tr) \<Longrightarrow> EvMask d s r out \<in> set tr \<Longrightarrow>
   masking_failed out \<Longrightarrow> truthy (config_get env ''query_check'' None) \<Longrightarrow>
   status res' = 1 \<and> data res' = data res"
  by (auto simp: masking_block_def masking_failed_def Let_def
        has_error_masking_result[of "mask_cost env"]
      split: sum.splits if_splits prod.splits)


lemma masking_block_masked:
  "masking_block env eng db sql qr res = (qr', res', tr) \<Longrightarrow> EvMask d s r out \<in> set tr \<Longrightarrow>
   qr' = left_for_audit env out"
  by (auto simp: masking_block_def masking_failed_def left_for_audit_def Let_def
        has_error_masking_result[of "mask_cost env"]
      split: sum.splits if_splits prod.splits)

lemma masking_block_called:
  "masking_block env eng db sql qr res = (qr', res', tr) \<Longrightarrow>
   tr = [] \<or> EvMask db sql qr (query_masking eng db sql qr) \<in> set tr"
  by (auto simp: masking_block_def Let_def split: sum.splits if_splits prod.splits)

lemma masking_block_unmasked:
  "masking_block env eng db sql qr res = (qr', res', tr) \<Longrightarrow> tr = [] \<Longrightarrow> qr' = qr"
  by (auto simp: masking_block_def Let_def split: sum.splits if_splits prod.splits)

lemma masking_block_left:
  assumes "masking_block env eng db sql qr res = (qr', res', tr)"
  shows "(tr = [] \<and> qr' = qr)
    \<or> (\<exists>out. EvMask db sql qr out \<in> set tr \<and> qr' = left_for_audit env out)"
proof (cases "tr = []")
  case True
  then show ?thesis using masking_block_unmasked[OF assms] by simp
next
  case False
  then have "EvMask db sql qr (query_masking eng db sql qr) \<in> set tr"
    using masking_block_called[OF assms] by simp
  then show ?thesis using masking_block_masked[OF assms] by blast
qed

lemma masking_block_error:
  "has_error qr \<Longrightarrow>
   masking_block env eng db sql qr res =
     (qr, res\<lparr>status := 1, msg := MsgText (the (error qr))\<rparr>, [])"
  by (simp add: masking_block_def)

lemma audit_block_payload:
  "audit_block env u inst k db sql lim pc sbm qr res = (f, res', tr) \<Longrightarrow>
   status res' = status res \<and> msg res' = msg res
   \<and> result_fields (data res') = result_fields (data res)"
  by (auto simp: audit_block_def save_log_def Let_def split: sum.splits if_splits option.splits)


lemma audit_block_logged:
  "audit_block env u inst k db sql (PInt n) pc sbm qr res = (f, res', tr) \<Longrightarrow>
   EvAuditSave lg saved \<in> set tr \<Longrightarrow>
   effect_row lg =
     (if has_error qr then 0 else if n = 0 then affected_rows qr else min n (affected_rows qr))"
  by (auto simp: audit_block_def save_log_def make_log_def Let_def
      split: sum.splits if_splits option.splits)

lemma audit_block_logged_any:
  assumes a: "audit_block env u inst k db sql lim pc sbm qr res = (f, res', tr)"
    and s: "EvAuditSave lg saved \<in> set tr"
  shows "if has_error qr then effect_row lg = 0
    else \<exists>n. py_int lim = Inr n
      \<and> effect_row lg = (if n = 0 then affected_rows qr else min n (affected_rows qr))"
proof (cases "has_error qr")
  case True
  with a s show ?thesis
    by (auto simp: audit_block_def save_log_def make_log_def Let_def split: option.splits)
next
  case False
  show ?thesis
  proof (cases "py_int lim")
    case (Inl e)
    with a s False show ?thesis by (simp add: audit_block_def)
  next
    case (Inr n)
    with a s False have "effect_row lg
        = (if n = 0 then affected_rows qr else min n (affected_rows qr))"
      by (auto simp: audit_block_def save_log_def make_log_def Let_def
          split: option.splits if_splits)
    with Inr False show ?thesis by simp
  qed
qed






lemma execute_block_not_return:
  "execute_block env eng inst req db sql lim \<noteq> (Return, tr)"
  by (auto simp: execute_block_def arm_def disarm_def Let_def
      split: sum.splits if_splits option.splits prod.splits)

lemma audit_block_not_return:
  "audit_block env u inst k db sql lim pc sbm qr res \<noteq> (Return, res', tr)"
  by (auto simp: audit_block_def save_log_def Let_def split: sum.splits if_splits option.splits)

section \<open>The paths through the views\<close>

text \<open>
  Every run of a \<^verbatim>\<open>try\<close> body takes one of a few paths; the rules below name them
  and give, for each, what the blocks returned and the history of the run.
\<close>

lemma flow_unit_cases: "(f :: unit flow) = Return \<or> f = Go () \<or> (\<exists>e s. f = Raise e s)"
  by (cases f) auto

lemma query_try_cases [case_names CheckRaise CheckReturn FilterRaise ExecRaise Audited]:
  fixes env req inst sql0 db lim0
  defines "u \<equiv> req_user req"
  obtains
    (CheckRaise) e s res trc where
      "check_block env u inst db sql0 lim0 result0 = (Raise e s, res, trc)"
      "query_try env req inst sql0 db lim0 = (Raise e s, res, trc)"
  | (CheckReturn) res trc where
      "check_block env u inst db sql0 lim0 result0 = (Return, res, trc)"
      "query_try env req inst sql0 db lim0 = (Return, res, trc)"
  | (FilterRaise) eng sql1 lim1 pc res trc lim2 e where
      "check_block env u inst db sql0 lim0 result0 = (Go (eng, sql1, lim1, pc), res, trc)"
      "lim2 = (if is_explain sql1 then 0 else lim1)"
      "filter_sql eng sql1 lim2 = Inl e"
      "query_try env req inst sql0 db lim0
         = (Raise e sql1, res, trc @ [EvFilterSql sql1 lim2 (Inl e)])"
  | (ExecRaise) eng sql1 lim1 pc res trc lim2 sql2 e s tre where
      "check_block env u inst db sql0 lim0 result0 = (Go (eng, sql1, lim1, pc), res, trc)"
      "lim2 = (if is_explain sql1 then 0 else lim1)"
      "filter_sql eng sql1 lim2 = Inr sql2"
      "execute_block env eng inst req db sql2 (PInt lim2) = (Raise e s, tre)"
      "query_try env req inst sql0 db lim0
         = (Raise e s, res, trc @ [EvFilterSql sql1 lim2 (Inr sql2)] @ tre)"
  | (Audited) eng sql1 lim1 pc res trc lim2 sql2 qr sbm tre qr1 res1 trm fa res2 tra where
      "check_block env u inst db sql0 lim0 result0 = (Go (eng, sql1, lim1, pc), res, trc)"
      "lim2 = (if is_explain sql1 then 0 else lim1)"
      "filter_sql eng sql1 lim2 = Inr sql2"
      "execute_block env eng inst req db sql2 (PInt lim2) = (Go (qr, sbm), tre)"
      "masking_block env eng db sql2 qr res = (qr1, res1, trm)"
      "audit_block env u inst ''online_query'' db sql2 (PInt lim2) pc sbm qr1 res1
         = (fa, res2, tra)"
      "query_try env req inst sql0 db lim0
         = (fa, res2, trc @ [EvFilterSql sql1 lim2 (Inr sql2)] @ tre @ trm @ tra)"
proof -
  note defs = query_try_def u_def Let_def
  obtain fc res trc where c: "check_block env u inst db sql0 lim0 result0 = (fc, res, trc)"
    by (metis prod_cases3)
  show thesis
  proof (cases fc)
    case (Raise e s)
    with c show thesis by (intro CheckRaise[of e s res trc]) (simp_all add: defs)
  next
    case Return
    with c show thesis by (intro CheckReturn[of res trc]) (simp_all add: defs)
  next
    case (Go x)
    obtain eng sql1 lim1 pc where x: "x = (eng, sql1, lim1, pc)" by (metis prod_cases4)
    define lim2 where "lim2 = (if is_explain sql1 then 0 else lim1)"
    note c' = c[unfolded Go x]
    show thesis
    proof (cases "filter_sql eng sql1 lim2")
      case (Inl e)
      show thesis
        using c' Inl
        by (intro FilterRaise[OF c' lim2_def Inl]) (simp add: defs lim2_def[symmetric])
    next
      case (Inr sql2)
      obtain fe tre where ex: "execute_block env eng inst req db sql2 (PInt lim2) = (fe, tre)"
        by (metis surj_pair)
      show thesis
      proof (cases fe)
        case (Raise e s)
        note ex' = ex[unfolded Raise]
        show thesis
          using c' Inr ex'
          by (intro ExecRaise[OF c' lim2_def Inr ex']) (simp add: defs lim2_def[symmetric])
      next
        case Return
        with ex show thesis by (simp add: execute_block_not_return)
      next
        case (Go y)
        obtain qr sbm where y: "y = (qr, sbm)" by (metis surj_pair)
        obtain qr1 res1 trm where m: "masking_block env eng db sql2 qr res = (qr1, res1, trm)"
          by (metis prod_cases3)
        obtain fa res2 tra where
          a: "audit_block env u inst ''online_query'' db sql2 (PInt lim2) pc sbm qr1 res1
                = (fa, res2, tra)"
          by (metis prod_cases3)
        note ex' = ex[unfolded Go y]
        show thesis
          using c' Inr ex' m a
          by (intro Audited[OF c' lim2_def Inr ex' m a]) (simp add: defs lim2_def[symmetric])
      qed
    qed
  qed
qed

lemma query_download_try_cases
  [case_names CheckRaise CheckReturn FilterRaise ReplaceRaise ExecRaise Audited]:
  fixes env req inst sql0 db lim0
  defines "u \<equiv> req_user req" and "lim3 \<equiv> config_get env ''download_limit'' None"
  obtains
    (CheckRaise) e s res trc where
      "check_block env u inst db sql0 lim0 result0 = (Raise e s, res, trc)"
      "query_download_try env req inst sql0 db lim0 = (Raise e s, res, trc)"
  | (CheckReturn) res trc where
      "check_block env u inst db sql0 lim0 result0 = (Return, res, trc)"
      "query_download_try env req inst sql0 db lim0 = (Return, res, trc)"
  | (FilterRaise) eng sql1 lim1 pc res trc lim2 e where
      "check_block env u inst db sql0 lim0 result0 = (Go (eng, sql1, lim1, pc), res, trc)"
      "lim2 = (if is_explain sql1 then 0 else lim1)"
      "filter_sql eng sql1 lim2 = Inl e"
      "query_download_try env req inst sql0 db lim0
         = (Raise e sql1, res, trc @ [EvFilterSql sql1 lim2 (Inl e)])"
  | (ReplaceRaise) eng sql1 lim1 pc res trc lim2 sql2 e where
      "check_block env u inst db sql0 lim0 result0 = (Go (eng, sql1, lim1, pc), res, trc)"
      "lim2 = (if is_explain sql1 then 0 else lim1)"
      "filter_sql eng sql1 lim2 = Inr sql2"
      "replace_limit env sql2 lim3 = Inl e"
      "query_download_try env req inst sql0 db lim0
         = (Raise e sql2, res,
            trc @ [EvFilterSql sql1 lim2 (Inr sql2), EvReplaceLimit sql2 lim3 (Inl e)])"
  | (ExecRaise) eng sql1 lim1 pc res trc lim2 sql2 sql3 e s tre where
      "check_block env u inst db sql0 lim0 result0 = (Go (eng, sql1, lim1, pc), res, trc)"
      "lim2 = (if is_explain sql1 then 0 else lim1)"
      "filter_sql eng sql1 lim2 = Inr sql2"
      "replace_limit env sql2 lim3 = Inr sql3"
      "execute_block env eng inst req db sql3 lim3 = (Raise e s, tre)"
      "query_download_try env req inst sql0 db lim0
         = (Raise e s, res,
            trc @ [EvFilterSql sql1 lim2 (Inr sql2), EvReplaceLimit sql2 lim3 (Inr sql3)] @ tre)"
  | (Audited) eng sql1 lim1 pc res trc lim2 sql2 sql3 qr sbm tre qr1 res1 trm fa res2 tra where
      "check_block env u inst db sql0 lim0 result0 = (Go (eng, sql1, lim1, pc), res, trc)"
      "lim2 = (if is_explain sql1 then 0 else lim1)"
      "filter_sql eng sql1 lim2 = Inr sql2"
      "replace_limit env sql2 lim3 = Inr sql3"
      "execute_block env eng inst req db sql3 lim3 = (Go (qr, sbm), tre)"
      "masking_block env eng db sql3 qr res = (qr1, res1, trm)"
      "audit_block env u inst ''download_query'' db sql3 lim3 pc sbm qr1 res1
         = (fa, res2, tra)"
      "query_download_try env req inst sql0 db lim0
         = (fa, res2,
            trc @ [EvFilterSql sql1 lim2 (Inr sql2), EvReplaceLimit sql2 lim3 (Inr sql3)]
              @ tre @ trm @ tra)"
proof -
  note defs = query_download_try_def u_def Let_def
  obtain fc res trc where c: "check_block env u inst db sql0 lim0 result0 = (fc, res, trc)"
    by (metis prod_cases3)
  show thesis
  proof (cases fc)
    case (Raise e s)
    with c show thesis by (intro CheckRaise[of e s res trc]) (simp_all add: defs)
  next
    case Return
    with c show thesis by (intro CheckReturn[of res trc]) (simp_all add: defs)
  next
    case (Go x)
    obtain eng sql1 lim1 pc where x: "x = (eng, sql1, lim1, pc)" by (metis prod_cases4)
    define lim2 where "lim2 = (if is_explain sql1 then 0 else lim1)"
    note c' = c[unfolded Go x]
    show thesis
    proof (cases "filter_sql eng sql1 lim2")
      case (Inl e)
      show thesis
        using c' Inl
        by (intro FilterRaise[OF c' lim2_def Inl]) (simp add: defs lim2_def[symmetric])
    next
      case (Inr sql2)
      show thesis
      proof (cases "replace_limit env sql2 lim3")
        case (Inl e)
        show thesis
          using c' Inr Inl
          by (intro ReplaceRaise[OF c' lim2_def Inr Inl])
            (simp add: defs lim2_def[symmetric] lim3_def[symmetric])
      next
        case rep: (Inr sql3)
        obtain fe tre where ex: "execute_block env eng inst req db sql3 lim3 = (fe, tre)"
          by (metis surj_pair)
        show thesis
        proof (cases fe)
          case (Raise e s)
          note ex' = ex[unfolded Raise]
          show thesis
            using c' Inr rep ex'
            by (intro ExecRaise[OF c' lim2_def Inr rep ex'])
              (simp add: defs lim2_def[symmetric] lim3_def[symmetric])
        next
          case Return
          with ex show thesis by (simp add: execute_block_not_return)
        next
          case (Go y)
          obtain qr sbm where y: "y = (qr, sbm)" by (metis surj_pair)
          obtain qr1 res1 trm where
            m: "masking_block env eng db sql3 qr res = (qr1, res1, trm)"
            by (metis prod_cases3)
          obtain fa res2 tra where
            a: "audit_block env u inst ''download_query'' db sql3 lim3 pc sbm qr1 res1
                  = (fa, res2, tra)"
            by (metis prod_cases3)
          note ex' = ex[unfolded Go y]
          show thesis
            using c' Inr rep ex' m a
            by (intro Audited[OF c' lim2_def Inr rep ex' m a])
              (simp add: defs lim2_def[symmetric] lim3_def[symmetric])
        qed
      qed
    qed
  qed
qed

lemma query_run [case_names Unparsed NoInstance Missing Finished Caught]:
  obtains
    (Unparsed) e where
      "py_int (limit_arg req) = Inl e"
      "query env req = \<lparr>response = Unhandled e, trace = []\<rparr>"
  | (NoInstance) n where
      "py_int (limit_arg req) = Inr n"
      "user_instances env (req_user req) (instance_name req) = None"
      "query env req = reject MsgNoInstance"
  | (Missing) n inst where
      "py_int (limit_arg req) = Inr n"
      "user_instances env (req_user req) (instance_name req) = Some inst"
      "sql_content req = None \<or> db_name req = None \<or> instance_name req = None"
      "query env req = reject MsgParamsEmpty"
  | (Finished) n inst sql0 db f res tr where
      "py_int (limit_arg req) = Inr n"
      "user_instances env (req_user req) (instance_name req) = Some inst"
      "sql_content req = Some sql0" "db_name req = Some db"
      "query_try env req inst sql0 db n = (f, res, tr)"
      "f = Return \<or> f = Go ()"
      "query env req = \<lparr>response = Json res, trace = tr\<rparr>"
      "instance_name req \<noteq> None"
  | (Caught) n inst sql0 db e s res tr where
      "py_int (limit_arg req) = Inr n"
      "user_instances env (req_user req) (instance_name req) = Some inst"
      "sql_content req = Some sql0" "db_name req = Some db"
      "query_try env req inst sql0 db n = (Raise e s, res, tr)"
      "query env req =
         \<lparr>response = Json (res\<lparr>status := 1, msg := MsgQueryException e\<rparr>),
          trace = tr @ [EvLogQueryError s e]\<rparr>"
      "instance_name req \<noteq> None"
proof (cases "py_int (limit_arg req)")
  case (Inl e)
  then show thesis by (intro Unparsed[of e]) (simp_all add: query_def)
next
  case (Inr n)
  show thesis
  proof (cases "user_instances env (req_user req) (instance_name req)")
    case None
    with Inr show thesis by (intro NoInstance[of n]) (simp_all add: query_def)
  next
    case (Some inst)
    show thesis
    proof (cases "sql_content req = None \<or> db_name req = None \<or> instance_name req = None")
      case True
      with Inr Some show thesis
        by (intro Missing[of n inst]) (auto simp: query_def split: option.splits)
    next
      case False
      then obtain sql0 db nm where
        f: "sql_content req = Some sql0" "db_name req = Some db" "instance_name req = Some nm"
        by auto
      obtain fl res tr where t: "query_try env req inst sql0 db n = (fl, res, tr)"
        by (metis prod_cases3)
      from flow_unit_cases[of fl] show thesis
      proof (elim disjE exE)
        assume "fl = Return"
        with Inr Some f t show thesis
          by (intro Finished[of n inst sql0 db fl res tr]) (simp_all add: query_def)
      next
        assume "fl = Go ()"
        with Inr Some f t show thesis
          by (intro Finished[of n inst sql0 db fl res tr]) (simp_all add: query_def)
      next
        fix e s assume "fl = Raise e s"
        with Inr Some f t show thesis
          by (intro Caught[of n inst sql0 db e s res tr]) (simp_all add: query_def)
      qed
    qed
  qed
qed

lemma query_download_run [case_names Unparsed NoInstance Missing Returned Exported Caught]:
  obtains
    (Unparsed) e where
      "py_int (limit_arg req) = Inl e"
      "query_download env req = \<lparr>response = Unhandled e, trace = []\<rparr>"
  | (NoInstance) n where
      "py_int (limit_arg req) = Inr n"
      "user_instances env (req_user req) (instance_name req) = None"
      "query_download env req = reject MsgNoInstance"
  | (Missing) n inst where
      "py_int (limit_arg req) = Inr n"
      "user_instances env (req_user req) (instance_name req) = Some inst"
      "sql_content req = None \<or> db_name req = None \<or> instance_name req = None"
      "query_download env req = reject MsgParamsEmpty"
  | (Returned) n inst sql0 db res tr where
      "py_int (limit_arg req) = Inr n"
      "user_instances env (req_user req) (instance_name req) = Some inst"
      "sql_content req = Some sql0" "db_name req = Some db"
      "query_download_try env req inst sql0 db n = (Return, res, tr)"
      "query_download env req = \<lparr>response = Json res, trace = tr\<rparr>"
      "instance_name req \<noteq> None"
  | (Exported) n inst sql0 db res tr where
      "py_int (limit_arg req) = Inr n"
      "user_instances env (req_user req) (instance_name req) = Some inst"
      "sql_content req = Some sql0" "db_name req = Some db"
      "query_download_try env req inst sql0 db n = (Go (), res, tr)"
      "query_download env req = \<lparr>response = export env req res, trace = tr\<rparr>"
      "instance_name req \<noteq> None"
  | (Caught) n inst sql0 db e s res tr where
      "py_int (limit_arg req) = Inr n"
      "user_instances env (req_user req) (instance_name req) = Some inst"
      "sql_content req = Some sql0" "db_name req = Some db"
      "query_download_try env req inst sql0 db n = (Raise e s, res, tr)"
      "query_download env req =
         \<lparr>response = Json (res\<lparr>status := 1, msg := MsgQueryException e\<rparr>),
          trace = tr @ [EvLogQueryError s e]\<rparr>"
      "instance_name req \<noteq> None"
proof (cases "py_int (limit_arg req)")
  case (Inl e)
  then show thesis by (intro Unparsed[of e]) (simp_all add: query_download_def)
next
  case (Inr n)
  show thesis
  proof (cases "user_instances env (req_user req) (instance_name req)")
    case None
    with Inr show thesis by (intro NoInstance[of n]) (simp_all add: query_download_def)
  next
    case (Some inst)
    show thesis
    proof (cases "sql_content req = None \<or> db_name req = None \<or> instance_name req = None")
      case True
      with Inr Some show thesis
        by (intro Missing[of n inst]) (auto simp: query_download_def split: option.splits)
    next
      case False
      then obtain sql0 db nm where
        f: "sql_content req = Some sql0" "db_name req = Some db" "instance_name req = Some nm"
        by auto
      obtain fl res tr where t: "query_download_try env req inst sql0 db n = (fl, res, tr)"
        by (metis prod_cases3)
      from flow_unit_cases[of fl] show thesis
      proof (elim disjE exE)
        assume "fl = Return"
        with Inr Some f t show thesis
          by (intro Returned[of n inst sql0 db res tr]) (simp_all add: query_download_def)
      next
        assume "fl = Go ()"
        with Inr Some f t show thesis
          by (intro Exported[of n inst sql0 db res tr]) (simp_all add: query_download_def)
      next
        fix e s assume "fl = Raise e s"
        with Inr Some f t show thesis
          by (intro Caught[of n inst sql0 db e s res tr]) (simp_all add: query_download_def)
      qed
    qed
  qed
qed

section \<open>Evaluating concrete runs\<close>

lemmas stub_defs = stub_env_def stub_engine_def writing_engine_def stub_request_def
  stub_config_def stub_rows_def failing_store_def failing_generator_def raising_masker_def
  error_writing_masker_def row_writing_masker_def
lemmas parse_defs = limit_arg_def parse_int_def strip_def is_space_def parse_nat_def
  is_digit_def digit_val_def is_explain_def py_lower_def lower_char_def char_of_def bit_0
lemmas block_defs = check_block_def execute_block_def arm_def disarm_def thread_truthy_def
  masking_block_def masking_result_of_def query_result_of_def audit_block_def save_log_def
  make_log_def has_error_def result0_def
lemmas view_defs = query_def query_try_def query_download_def query_download_try_def
  export_def reject_def Let_def

section \<open>C1: the timeout schedule\<close>

lemma added_kind: "kind_of ev \<noteq> KAddSchedule \<Longrightarrow> added ev = []"
  by (cases ev) simp_all

lemma deleted_kind: "kind_of ev \<noteq> KDelSchedule \<Longrightarrow> deleted ev = []"
  by (cases ev) simp_all

lemma no_schedules:
  "(\<And>ev. ev \<in> set tr \<Longrightarrow> kind_of ev \<noteq> KAddSchedule \<and> kind_of ev \<noteq> KDelSchedule) \<Longrightarrow>
   schedules_added tr = [] \<and> schedules_deleted tr = []"
  by (induction tr) (simp_all add: schedules_added_def schedules_deleted_def added_kind deleted_kind)

lemma schedules_append:
  "schedules_added (a @ b) = schedules_added a @ schedules_added b"
  "schedules_deleted (a @ b) = schedules_deleted a @ schedules_deleted b"
  by (simp_all add: schedules_added_def schedules_deleted_def)

lemma check_block_no_schedules:
  "check_block env u inst db sql lim res = (f, res', tr) \<Longrightarrow>
   schedules_added tr = [] \<and> schedules_deleted tr = []"
  by (rule no_schedules) (auto dest: check_block_kinds)

lemma masking_block_no_schedules:
  "masking_block env eng db sql qr res = (qr', res', tr) \<Longrightarrow>
   schedules_added tr = [] \<and> schedules_deleted tr = []"
  by (rule no_schedules) (auto dest: masking_block_kinds)

lemma audit_block_no_schedules:
  "audit_block env u inst k db sql lim pc sbm qr res = (f, res', tr) \<Longrightarrow>
   schedules_added tr = [] \<and> schedules_deleted tr = []"
  by (rule no_schedules) (auto dest: audit_block_kinds)

lemma single_no_schedules:
  "schedules_added [EvFilterSql a b c] = []" "schedules_deleted [EvFilterSql a b c] = []"
  "schedules_added [EvReplaceLimit a l c] = []" "schedules_deleted [EvReplaceLimit a l c] = []"
  "schedules_added [EvLogQueryError a e] = []" "schedules_deleted [EvLogQueryError a e] = []"
  by (simp_all add: schedules_added_def schedules_deleted_def)

lemma staged_schedules:
  assumes c: "check_block env u inst db sql0 n res0 = (fc, res, trc)"
    and e: "execute_block env eng inst req db sql lim = (fe, tre)"
    and tr: "tr = trc @ mid @ tre @ rest"
    and mid: "schedules_added mid = [] \<and> schedules_deleted mid = []"
      "\<And>ev. ev \<in> set mid \<Longrightarrow> kind_of ev \<noteq> KGetConnection \<and> kind_of ev \<noteq> KExecute"
    and rest: "schedules_added rest = [] \<and> schedules_deleted rest = []"
      "\<And>ev. ev \<in> set rest \<Longrightarrow> kind_of ev \<noteq> KGetConnection \<and> kind_of ev \<noteq> KExecute"
    and g: "EvGetConnection d (Inr t) \<in> set tr" and tt: "thread_truthy t"
    and x: "EvExecute d' s l out \<in> set tr"
  shows "schedules_added tr = [''query-'' @ time_time env]
    \<and> schedules_deleted tr
        = (case out of Inl e \<Rightarrow> [] | Inr qr \<Rightarrow> [''query-'' @ time_time env])"
proof -
  have g': "EvGetConnection d (Inr t) \<in> set tre"
    using g tr check_block_kinds[OF c] mid(2) rest(2) by fastforce
  have x': "EvExecute d' s l out \<in> set tre"
    using x tr check_block_kinds[OF c] mid(2) rest(2) by fastforce
  from execute_block_schedules[OF e g' tt x'] check_block_no_schedules[OF c] mid(1) rest(1)
  show ?thesis by (simp add: tr schedules_append)
qed

lemma query_try_schedules:
  assumes t: "query_try env req inst sql0 db n = (f, res, tr)"
    and g: "EvGetConnection d (Inr th) \<in> set tr" and tt: "thread_truthy th"
    and x: "EvExecute d' s l out \<in> set tr"
  shows "schedules_added tr = [''query-'' @ time_time env]
    \<and> schedules_deleted tr
        = (case out of Inl e \<Rightarrow> [] | Inr qr \<Rightarrow> [''query-'' @ time_time env])"
proof (cases env req inst sql0 db n rule: query_try_cases)
  case (ExecRaise eng sql1 lim1 pc res trc lim2 sql2 e s' tre)
  show ?thesis
  proof (rule staged_schedules[OF ExecRaise(1,4) _ _ _ _ _ g tt x,
        of "[EvFilterSql sql1 lim2 (Inr sql2)]" "[]"])
    show "tr = trc @ [EvFilterSql sql1 lim2 (Inr sql2)] @ tre @ []"
      using t ExecRaise(5) by simp
  qed (simp_all add: single_no_schedules schedules_added_def schedules_deleted_def)
next
  case (Audited eng sql1 lim1 pc res trc lim2 sql2 qr sbm tre qr1 res1 trm fa res2 tra)
  show ?thesis
  proof (rule staged_schedules[OF Audited(1,4) _ _ _ _ _ g tt x,
        of "[EvFilterSql sql1 lim2 (Inr sql2)]" "trm @ tra"])
    show "tr = trc @ [EvFilterSql sql1 lim2 (Inr sql2)] @ tre @ trm @ tra"
      using t Audited(7) by simp
    show "schedules_added (trm @ tra) = [] \<and> schedules_deleted (trm @ tra) = []"
      using masking_block_no_schedules[OF Audited(5)] audit_block_no_schedules[OF Audited(6)]
      by (simp add: schedules_append)
    show "kind_of ev \<noteq> KGetConnection \<and> kind_of ev \<noteq> KExecute" if "ev \<in> set (trm @ tra)"
      for ev
      using that masking_block_kinds[OF Audited(5)] audit_block_kinds[OF Audited(6)]
      by fastforce
  qed (simp_all add: single_no_schedules)
qed (use t x in \<open>auto dest: check_block_kinds\<close>)

lemma query_download_try_schedules:
  assumes t: "query_download_try env req inst sql0 db n = (f, res, tr)"
    and g: "EvGetConnection d (Inr th) \<in> set tr" and tt: "thread_truthy th"
    and x: "EvExecute d' s l out \<in> set tr"
  shows "schedules_added tr = [''query-'' @ time_time env]
    \<and> schedules_deleted tr
        = (case out of Inl e \<Rightarrow> [] | Inr qr \<Rightarrow> [''query-'' @ time_time env])"
proof (cases env req inst sql0 db n rule: query_download_try_cases)
  case (ExecRaise eng sql1 lim1 pc res trc lim2 sql2 sql3 e s' tre)
  let ?mid = "[EvFilterSql sql1 lim2 (Inr sql2),
               EvReplaceLimit sql2 (config_get env ''download_limit'' None) (Inr sql3)]"
  show ?thesis
  proof (rule staged_schedules[OF ExecRaise(1,5) _ _ _ _ _ g tt x, of ?mid "[]"])
    show "tr = trc @ ?mid @ tre @ []"
      using t ExecRaise(6) by simp
  qed (auto simp: schedules_added_def schedules_deleted_def)
next
  case (Audited eng sql1 lim1 pc res trc lim2 sql2 sql3 qr sbm tre qr1 res1 trm fa res2 tra)
  let ?mid = "[EvFilterSql sql1 lim2 (Inr sql2),
               EvReplaceLimit sql2 (config_get env ''download_limit'' None) (Inr sql3)]"
  show ?thesis
  proof (rule staged_schedules[OF Audited(1,5) _ _ _ _ _ g tt x, of ?mid "trm @ tra"])
    show "tr = trc @ ?mid @ tre @ trm @ tra"
      using t Audited(8) by simp
    show "schedules_added (trm @ tra) = [] \<and> schedules_deleted (trm @ tra) = []"
      using masking_block_no_schedules[OF Audited(6)] audit_block_no_schedules[OF Audited(7)]
      by (simp add: schedules_append)
    show "kind_of ev \<noteq> KGetConnection \<and> kind_of ev \<noteq> KExecute" if "ev \<in> set (trm @ tra)"
      for ev
      using that masking_block_kinds[OF Audited(6)] audit_block_kinds[OF Audited(7)]
      by fastforce
  qed (auto simp: schedules_added_def schedules_deleted_def)
qed (use t x in \<open>auto dest: check_block_kinds\<close>)

text \<open>
  Claim C1, as stated, fails where the execution raises: the schedule was registered for
  thread 7 and \<open>del_schedule\<close> is never called.
\<close>

theorem guard_not_disarmed_counterexample:
  "get_connection (stub_engine False (Some 7) (Inl (Raised ''server has gone away'')) Inr)
     ''sales'' = Inr (Some 7)
   \<and> schedules_added (trace (query
        (stub_env [] 5 (stub_engine False (Some 7) (Inl (Raised ''server has gone away'')) Inr))
        (stub_request ''select id from t'' ''10''))) = [''query-1700000000.5'']
   \<and> schedules_deleted (trace (query
        (stub_env [] 5 (stub_engine False (Some 7) (Inl (Raised ''server has gone away'')) Inr))
        (stub_request ''select id from t'' ''10''))) = []
   \<and> schedules_deleted (trace (query_download
        (stub_env [] 5 (stub_engine False (Some 7) (Inl (Raised ''server has gone away'')) Inr))
        (stub_request ''select id from t'' ''10''))) = []"
  by (simp add: stub_defs parse_defs block_defs view_defs schedules_added_def
      schedules_deleted_def)

text \<open>
  Claim C1, amended. In both views, when the connection has a truthy thread id (neither
  \<open>None\<close> nor 0) and the execution is reached, exactly one schedule has been registered,
  under the name \<open>query-<time>\<close>. When the execution returns a result set, with or
  without an error on it, \<open>del_schedule\<close> is called exactly once, for that name; when the
  execution raises, \<open>del_schedule\<close> is not called and the job is left to fire.
\<close>

theorem guard_armed_and_disarmed:
  assumes "tr = trace (query env req) \<or> tr = trace (query_download env req)"
    and "EvGetConnection d (Inr th) \<in> set tr" and "thread_truthy th"
    and "EvExecute d' s l out \<in> set tr"
  shows "schedules_added tr = [''query-'' @ time_time env]
    \<and> schedules_deleted tr
        = (case out of Inl e \<Rightarrow> [] | Inr qr \<Rightarrow> [''query-'' @ time_time env])"
  using assms(1)
proof
  assume tr: "tr = trace (query env req)"
  show ?thesis
  proof (cases env req rule: query_run)
    case (Finished n inst sql0 db f res tr')
    then have eq: "tr = tr'" using tr by simp
    show ?thesis using query_try_schedules[OF Finished(5)] assms(2-4) unfolding eq by blast
  next
    case (Caught n inst sql0 db e s' res tr')
    then have eq: "tr = tr' @ [EvLogQueryError s' e]" using tr by simp
    have "EvGetConnection d (Inr th) \<in> set tr'" "EvExecute d' s l out \<in> set tr'"
      using assms(2,4) eq by simp_all
    from query_try_schedules[OF Caught(5) this(1) assms(3) this(2)] show ?thesis
      by (simp add: eq schedules_append single_no_schedules)
  qed (use tr assms(2) in \<open>simp_all add: reject_def\<close>)
next
  assume tr: "tr = trace (query_download env req)"
  show ?thesis
  proof (cases env req rule: query_download_run)
    case (Returned n inst sql0 db res tr')
    then have eq: "tr = tr'" using tr by simp
    show ?thesis
      using query_download_try_schedules[OF Returned(5)] assms(2-4) unfolding eq by blast
  next
    case (Exported n inst sql0 db res tr')
    then have eq: "tr = tr'" using tr by simp
    show ?thesis
      using query_download_try_schedules[OF Exported(5)] assms(2-4) unfolding eq by blast
  next
    case (Caught n inst sql0 db e s' res tr')
    then have eq: "tr = tr' @ [EvLogQueryError s' e]" using tr by simp
    have "EvGetConnection d (Inr th) \<in> set tr'" "EvExecute d' s l out \<in> set tr'"
      using assms(2,4) eq by simp_all
    from query_download_try_schedules[OF Caught(5) this(1) assms(3) this(2)] show ?thesis
      by (simp add: eq schedules_append single_no_schedules)
  qed (use tr assms(2) in \<open>simp_all add: reject_def\<close>)
qed

theorem guard_armed_and_disarmed_witness:
  "EvGetConnection ''sales'' (Inr (Some 7))
     \<in> set (trace (query (stub_env [] 5 (stub_engine False (Some 7) (Inr stub_rows) Inr))
          (stub_request ''select id from t'' ''10'')))
   \<and> thread_truthy (Some 7)
   \<and> EvExecute ''sales'' ''select id from t'' (PInt 5) (Inr stub_rows)
     \<in> set (trace (query (stub_env [] 5 (stub_engine False (Some 7) (Inr stub_rows) Inr))
          (stub_request ''select id from t'' ''10'')))
   \<and> schedules_added (trace (query
        (stub_env [] 5 (stub_engine False (Some 7) (Inr stub_rows) Inr))
        (stub_request ''select id from t'' ''10''))) = [''query-1700000000.5'']
   \<and> schedules_deleted (trace (query
        (stub_env [] 5 (stub_engine False (Some 7) (Inr stub_rows) Inr))
        (stub_request ''select id from t'' ''10''))) = [''query-1700000000.5'']"
  using guard_armed_and_disarmed
    [where tr = "trace (query (stub_env [] 5 (stub_engine False (Some 7) (Inr stub_rows) Inr))
          (stub_request ''select id from t'' ''10''))"
       and env = "stub_env [] 5 (stub_engine False (Some 7) (Inr stub_rows) Inr)"
       and req = "stub_request ''select id from t'' ''10''"
       and d = "''sales''" and th = "Some 7" and d' = "''sales''"
       and s = "''select id from t''" and l = "PInt 5" and out = "Inr stub_rows"]
  by (simp add: stub_defs parse_defs block_defs view_defs)

section \<open>C2: the download ceiling\<close>




section \<open>C3 and C4: a masking failure\<close>

lemma result0_fields: "status result0 = 0" "msg result0 = MsgOk"
  "result_fields (data result0) = None"
  by (simp_all add: result0_def)

lemma query_try_strict:
  assumes t: "query_try env req inst sql0 db n = (f, res, tr)"
    and m: "EvMask d s r out \<in> set tr" and mf: "masking_failed out"
    and qc: "truthy (config_get env ''query_check'' None)"
  shows "status res = 1 \<and> result_fields (data res) = None"
proof (cases env req inst sql0 db n rule: query_try_cases)
  case (Audited eng sql1 lim1 pc res0 trc lim2 sql2 qr sbm tre qr1 res1 trm fa res2 tra)
  have tr: "tr = trc @ [EvFilterSql sql1 lim2 (Inr sql2)] @ tre @ trm @ tra"
    and res: "res = res2"
    using t Audited(7) by simp_all
  have "EvMask d s r out \<in> set trm"
    using m tr check_block_kinds[OF Audited(1)] execute_block_kinds[OF Audited(4)]
      audit_block_kinds[OF Audited(6)] by fastforce
  from masking_block_strict[OF Audited(5) this mf qc]
  have "status res1 = 1" "data res1 = data res0" by simp_all
  moreover have "res0 = result0" using check_block_go[OF Audited(1)] by simp
  ultimately show ?thesis
    using audit_block_payload[OF Audited(6)] res by (simp add: result0_fields)
qed (use t m in \<open>auto dest: check_block_kinds execute_block_kinds\<close>)

lemma query_strict_masking_failure:
  assumes "EvMask d s r out \<in> set (trace (query env req))" and "masking_failed out"
    and "truthy (config_get env ''query_check'' None)"
  shows "\<exists>p. response (query env req) = Json p \<and> status p = 1
    \<and> result_fields (data p) = None"
proof (cases env req rule: query_run)
  case (Finished n inst sql0 db f res tr)
  with assms(1) have "EvMask d s r out \<in> set tr" by simp
  from query_try_strict[OF Finished(5) this assms(2,3)] Finished(7) show ?thesis by simp
next
  case (Caught n inst sql0 db e s' res tr)
  with assms(1) have "EvMask d s r out \<in> set tr" by simp
  from query_try_strict[OF Caught(5) this assms(2,3)] Caught(6) show ?thesis by simp
qed (use assms(1) in \<open>simp_all add: reject_def\<close>)

text \<open>
  Claim C3. With \<open>data_masking\<close> and \<open>query_check\<close> enabled, a masking call that
  fails makes \<open>query\<close> answer with status 1 and a \<open>data\<close> that never received a result
  set (the lemma above). \<open>query_download\<close> sets the same status at lines 326-328 and
  342-344, but then goes on to the export, whose lookup of \<open>column_list\<close> in the empty
  \<open>data\<close> raises \<open>KeyError\<close> outside every handler: for the request below, with a
  download limit of 1000 and a masking call that raises, the audit record is written and the
  caller receives the exception instead of a status, where \<open>query\<close> answers the same
  request with status 1.
\<close>

theorem strict_masking_failure_download:
  "response (query_download
      (stub_env [(''data_masking'', PBool True), (''query_check'', PBool True),
                 (''download_limit'', PInt 1000)] 5
         (stub_engine False (Some 7) (Inr stub_rows) raising_masker))
      (stub_request ''select id from t'' ''10''))
     = Unhandled (KeyError ''column_list'')
   \<and> EvMask ''sales'' ''select id from t'' (stub_rows\<lparr>query_time := 3\<rparr>)
        (Inl (Raised ''no masking rule''), stub_rows\<lparr>query_time := 3\<rparr>)
     \<in> set (trace (query_download
          (stub_env [(''data_masking'', PBool True), (''query_check'', PBool True),
                     (''download_limit'', PInt 1000)] 5
             (stub_engine False (Some 7) (Inr stub_rows) raising_masker))
          (stub_request ''select id from t'' ''10'')))
   \<and> logged_rows (trace (query_download
          (stub_env [(''data_masking'', PBool True), (''query_check'', PBool True),
                     (''download_limit'', PInt 1000)] 5
             (stub_engine False (Some 7) (Inr stub_rows) raising_masker))
          (stub_request ''select id from t'' ''10''))) = [37]
   \<and> response (query
      (stub_env [(''data_masking'', PBool True), (''query_check'', PBool True),
                 (''download_limit'', PInt 1000)] 5
         (stub_engine False (Some 7) (Inr stub_rows) raising_masker))
      (stub_request ''select id from t'' ''10''))
     = Json \<lparr>status = 1, msg = MsgMaskingException (Raised ''no masking rule''),
             data = \<lparr>result_fields = None, seconds_behind = Some PNone\<rparr>\<rparr>"
  by (simp add: stub_defs parse_defs block_defs view_defs logged_rows_def)











section \<open>C5: the logged row count\<close>

lemma logged_tail:
  assumes mb: "masking_block env eng db sql qr res0 = (qr1, res1, trm)"
    and ab: "audit_block env u inst k db sql lim pc sbm qr1 res1 = (fa, res2, tra)"
    and a: "EvAuditSave lg sv \<in> set tra"
  shows "((trm = [] \<and> qr1 = qr)
        \<or> (\<exists>out. EvMask db sql qr out \<in> set trm \<and> qr1 = left_for_audit env out))
    \<and> (if has_error qr1 then effect_row lg = 0
        else \<exists>n. py_int lim = Inr n
          \<and> effect_row lg = (if n = 0 then affected_rows qr1 else min n (affected_rows qr1)))
    \<and> (has_error qr \<longrightarrow> effect_row lg = 0)"
proof -
  note l = audit_block_logged_any[OF ab a]
  have "effect_row lg = 0" if h: "has_error qr"
  proof -
    from masking_block_error[OF h, of env eng db sql res0] mb have "qr1 = qr" by simp
    with l h show ?thesis by simp
  qed
  with masking_block_left[OF mb] l show ?thesis by blast
qed

lemma no_mask_outside:
  assumes "\<And>ev. ev \<in> set tr \<Longrightarrow> kind_of ev \<noteq> KMask"
  shows "EvMask d s r out \<notin> set tr"
  using assms[of "EvMask d s r out"] by auto

lemma query_try_logged:
  assumes t: "query_try env req inst sql0 db n = (f, res, tr)"
    and a: "EvAuditSave lg sv \<in> set tr"
  shows "\<exists>d s0 m p s qr0 q.
      EvPrivCheck d s0 m (Inr p) \<in> set tr
    \<and> EvExecute d s (PInt (if is_explain s0 then 0 else priv_limit_num p)) (Inr qr0) \<in> set tr
    \<and> ((\<forall>ev \<in> set tr. kind_of ev \<noteq> KMask) \<and> q = qr0\<lparr>query_time := query_cost env\<rparr>
        \<or> (\<exists>out. EvMask d s (qr0\<lparr>query_time := query_cost env\<rparr>) out \<in> set tr
              \<and> q = left_for_audit env out))
    \<and> effect_row lg =
        (if has_error q then 0
         else if (if is_explain s0 then 0 else priv_limit_num p) = 0 then affected_rows q
         else min (if is_explain s0 then 0 else priv_limit_num p) (affected_rows q))
    \<and> (has_error qr0 \<longrightarrow> effect_row lg = 0)"
proof (cases env req inst sql0 db n rule: query_try_cases)
  case (Audited eng sql1 lim1 pc res0 trc lim2 sql2 qr sbm tre qr1 res1 trm fa res2 tra)
  have tr: "tr = trc @ [EvFilterSql sql1 lim2 (Inr sql2)] @ tre @ trm @ tra"
    using t Audited(7) by simp
  have a': "EvAuditSave lg sv \<in> set tra"
    using a tr check_block_kinds[OF Audited(1)] execute_block_kinds[OF Audited(4)]
      masking_block_kinds[OF Audited(5)] by fastforce
  note tail = logged_tail[OF Audited(5,6) a']
  from execute_block_go[OF Audited(4)] obtain qr0 where
    q: "EvExecute db sql2 (PInt lim2) (Inr qr0) \<in> set tre"
      "qr = qr0\<lparr>query_time := query_cost env\<rparr>" by blast
  from check_block_go[OF Audited(1)] obtain p where
    p: "EvPrivCheck db sql1 n (Inr p) \<in> set trc" "lim1 = priv_limit_num p" by blast
  have l: "lim2 = (if is_explain sql1 then 0 else priv_limit_num p)"
    using Audited(2) p(2) by simp
  have 1: "EvPrivCheck db sql1 n (Inr p) \<in> set tr" using p(1) tr by simp
  have 2: "EvExecute db sql2 (PInt (if is_explain sql1 then 0 else priv_limit_num p))
      (Inr qr0) \<in> set tr"
    using q(1) tr l by simp
  have 3: "(\<forall>ev \<in> set tr. kind_of ev \<noteq> KMask) \<and> qr1 = qr0\<lparr>query_time := query_cost env\<rparr>
      \<or> (\<exists>out. EvMask db sql2 (qr0\<lparr>query_time := query_cost env\<rparr>) out \<in> set tr
            \<and> qr1 = left_for_audit env out)"
  proof (cases "trm = []")
    case True
    then have "\<forall>ev \<in> set tr. kind_of ev \<noteq> KMask"
      using tr check_block_kinds[OF Audited(1)] execute_block_kinds[OF Audited(4)]
        audit_block_kinds[OF Audited(6)] by fastforce
    moreover have "qr1 = qr" using tail True by auto
    ultimately show ?thesis using q(2) by simp
  next
    case False
    with tail obtain out where "EvMask db sql2 qr out \<in> set trm" "qr1 = left_for_audit env out"
      by blast
    then have "EvMask db sql2 (qr0\<lparr>query_time := query_cost env\<rparr>) out \<in> set tr"
      "qr1 = left_for_audit env out"
      using tr q(2) by simp_all
    then show ?thesis by blast
  qed
  have 4: "effect_row lg =
      (if has_error qr1 then 0
       else if (if is_explain sql1 then 0 else priv_limit_num p) = 0 then affected_rows qr1
       else min (if is_explain sql1 then 0 else priv_limit_num p) (affected_rows qr1))"
    using tail l by (auto split: if_splits)
  have 5: "has_error qr0 \<longrightarrow> effect_row lg = 0"
    using tail q(2) by (simp add: has_error_query_time)
  from 1 2 3 4 5 show ?thesis by blast
qed (use t a in \<open>auto dest: check_block_kinds execute_block_kinds\<close>)

lemma query_download_try_logged:
  assumes t: "query_download_try env req inst sql0 db n = (f, res, tr)"
    and a: "EvAuditSave lg sv \<in> set tr"
  shows "\<exists>d s qr0 q.
      EvExecute d s (config_get env ''download_limit'' None) (Inr qr0) \<in> set tr
    \<and> ((\<forall>ev \<in> set tr. kind_of ev \<noteq> KMask) \<and> q = qr0\<lparr>query_time := query_cost env\<rparr>
        \<or> (\<exists>out. EvMask d s (qr0\<lparr>query_time := query_cost env\<rparr>) out \<in> set tr
              \<and> q = left_for_audit env out))
    \<and> (if has_error q then effect_row lg = 0
        else \<exists>k. py_int (config_get env ''download_limit'' None) = Inr k
          \<and> effect_row lg = (if k = 0 then affected_rows q else min k (affected_rows q)))
    \<and> (has_error qr0 \<longrightarrow> effect_row lg = 0)"
proof (cases env req inst sql0 db n rule: query_download_try_cases)
  case (Audited eng sql1 lim1 pc res0 trc lim2 sql2 sql3 qr sbm tre qr1 res1 trm fa res2 tra)
  let ?lim3 = "config_get env ''download_limit'' None"
  have tr: "tr = trc @ [EvFilterSql sql1 lim2 (Inr sql2), EvReplaceLimit sql2 ?lim3 (Inr sql3)]
      @ tre @ trm @ tra"
    using t Audited(8) by simp
  have a': "EvAuditSave lg sv \<in> set tra"
    using a tr check_block_kinds[OF Audited(1)] execute_block_kinds[OF Audited(5)]
      masking_block_kinds[OF Audited(6)] by fastforce
  note tail = logged_tail[OF Audited(6,7) a']
  from execute_block_go[OF Audited(5)] obtain qr0 where
    q: "EvExecute db sql3 ?lim3 (Inr qr0) \<in> set tre"
      "qr = qr0\<lparr>query_time := query_cost env\<rparr>" by blast
  have 2: "EvExecute db sql3 ?lim3 (Inr qr0) \<in> set tr" using q(1) tr by simp
  have 3: "(\<forall>ev \<in> set tr. kind_of ev \<noteq> KMask) \<and> qr1 = qr0\<lparr>query_time := query_cost env\<rparr>
      \<or> (\<exists>out. EvMask db sql3 (qr0\<lparr>query_time := query_cost env\<rparr>) out \<in> set tr
            \<and> qr1 = left_for_audit env out)"
  proof (cases "trm = []")
    case True
    then have "\<forall>ev \<in> set tr. kind_of ev \<noteq> KMask"
      using tr check_block_kinds[OF Audited(1)] execute_block_kinds[OF Audited(5)]
        audit_block_kinds[OF Audited(7)] by fastforce
    moreover have "qr1 = qr" using tail True by auto
    ultimately show ?thesis using q(2) by simp
  next
    case False
    with tail obtain out where "EvMask db sql3 qr out \<in> set trm" "qr1 = left_for_audit env out"
      by blast
    then have "EvMask db sql3 (qr0\<lparr>query_time := query_cost env\<rparr>) out \<in> set tr"
      "qr1 = left_for_audit env out"
      using tr q(2) by simp_all
    then show ?thesis by blast
  qed
  have 4: "if has_error qr1 then effect_row lg = 0
      else \<exists>k. py_int ?lim3 = Inr k
        \<and> effect_row lg = (if k = 0 then affected_rows qr1 else min k (affected_rows qr1))"
    using tail by blast
  have 5: "has_error qr0 \<longrightarrow> effect_row lg = 0"
    using tail q(2) by (simp add: has_error_query_time)
  from 2 3 4 5 show ?thesis by blast
qed (use t a in \<open>auto dest: check_block_kinds execute_block_kinds\<close>)


lemma query_logged:
  assumes "EvAuditSave lg sv \<in> set (trace (query env req))"
  shows "(\<exists>d s0 m p s qr0 q.
          EvPrivCheck d s0 m (Inr p) \<in> set (trace (query env req))
        \<and> EvExecute d s (PInt (if is_explain s0 then 0 else priv_limit_num p)) (Inr qr0)
            \<in> set (trace (query env req))
        \<and> ((\<forall>ev \<in> set (trace (query env req)). kind_of ev \<noteq> KMask)
              \<and> q = qr0\<lparr>query_time := query_cost env\<rparr>
            \<or> (\<exists>out. EvMask d s (qr0\<lparr>query_time := query_cost env\<rparr>) out
                        \<in> set (trace (query env req))
                  \<and> q = left_for_audit env out))
        \<and> effect_row lg =
            (if has_error q then 0
             else if (if is_explain s0 then 0 else priv_limit_num p) = 0 then affected_rows q
             else min (if is_explain s0 then 0 else priv_limit_num p) (affected_rows q))
        \<and> (has_error qr0 \<longrightarrow> effect_row lg = 0))"
proof (cases env req rule: query_run)
  case (Finished n inst sql0 db f res tr)
  then have eq: "trace (query env req) = tr" by simp
  show ?thesis using query_try_logged[OF Finished(5), of lg sv] assms unfolding eq by blast
next
  case (Caught n inst sql0 db e s' res tr)
  then have eq: "trace (query env req) = tr @ [EvLogQueryError s' e]" by simp
  have "EvAuditSave lg sv \<in> set tr" using assms eq by simp
  from query_try_logged[OF Caught(5) this] obtain d s0 m p s qr0 q where
    1: "EvPrivCheck d s0 m (Inr p) \<in> set tr"
    and 2: "EvExecute d s (PInt (if is_explain s0 then 0 else priv_limit_num p)) (Inr qr0)
        \<in> set tr"
    and 3: "(\<forall>ev \<in> set tr. kind_of ev \<noteq> KMask) \<and> q = qr0\<lparr>query_time := query_cost env\<rparr>
        \<or> (\<exists>out. EvMask d s (qr0\<lparr>query_time := query_cost env\<rparr>) out \<in> set tr
              \<and> q = left_for_audit env out)"
    and 4: "effect_row lg =
        (if has_error q then 0
         else if (if is_explain s0 then 0 else priv_limit_num p) = 0 then affected_rows q
         else min (if is_explain s0 then 0 else priv_limit_num p) (affected_rows q))"
    and 5: "has_error qr0 \<longrightarrow> effect_row lg = 0"
    by blast
  have in1: "EvPrivCheck d s0 m (Inr p) \<in> set (tr @ [EvLogQueryError s' e])" using 1 by simp
  have in2: "EvExecute d s (PInt (if is_explain s0 then 0 else priv_limit_num p)) (Inr qr0)
      \<in> set (tr @ [EvLogQueryError s' e])" using 2 by simp
  have in3: "(\<forall>ev \<in> set (tr @ [EvLogQueryError s' e]). kind_of ev \<noteq> KMask)
        \<and> q = qr0\<lparr>query_time := query_cost env\<rparr>
      \<or> (\<exists>out. EvMask d s (qr0\<lparr>query_time := query_cost env\<rparr>) out
                  \<in> set (tr @ [EvLogQueryError s' e])
            \<and> q = left_for_audit env out)"
    using 3 by auto
  show ?thesis unfolding eq using in1 in2 in3 4 5 by blast
qed (use assms in \<open>simp_all add: reject_def\<close>)

lemma query_download_logged:
  assumes "EvAuditSave lg sv \<in> set (trace (query_download env req))"
  shows "(\<exists>d s qr0 q.
          EvExecute d s (config_get env ''download_limit'' None) (Inr qr0)
            \<in> set (trace (query_download env req))
        \<and> ((\<forall>ev \<in> set (trace (query_download env req)). kind_of ev \<noteq> KMask)
              \<and> q = qr0\<lparr>query_time := query_cost env\<rparr>
            \<or> (\<exists>out. EvMask d s (qr0\<lparr>query_time := query_cost env\<rparr>) out
                        \<in> set (trace (query_download env req))
                  \<and> q = left_for_audit env out))
        \<and> (if has_error q then effect_row lg = 0
            else \<exists>k. py_int (config_get env ''download_limit'' None) = Inr k
              \<and> effect_row lg = (if k = 0 then affected_rows q else min k (affected_rows q)))
        \<and> (has_error qr0 \<longrightarrow> effect_row lg = 0))"
proof -
  have lift: ?thesis
    if t: "query_download_try env req inst sql0 db n = (f, res, tr)"
      and eq: "trace (query_download env req) = tr @ rest"
      and rest: "rest = [] \<or> (\<exists>x y. rest = [EvLogQueryError x y])"
    for inst sql0 db n f res tr rest
  proof -
    have "EvAuditSave lg sv \<in> set tr" using assms eq rest by auto
    from query_download_try_logged[OF t this] obtain d s qr0 q where
      2: "EvExecute d s (config_get env ''download_limit'' None) (Inr qr0) \<in> set tr"
      and 3: "(\<forall>ev \<in> set tr. kind_of ev \<noteq> KMask) \<and> q = qr0\<lparr>query_time := query_cost env\<rparr>
          \<or> (\<exists>out. EvMask d s (qr0\<lparr>query_time := query_cost env\<rparr>) out \<in> set tr
                \<and> q = left_for_audit env out)"
      and 4: "if has_error q then effect_row lg = 0
          else \<exists>k. py_int (config_get env ''download_limit'' None) = Inr k
            \<and> effect_row lg = (if k = 0 then affected_rows q else min k (affected_rows q))"
      and 5: "has_error qr0 \<longrightarrow> effect_row lg = 0"
      by blast
    have in2: "EvExecute d s (config_get env ''download_limit'' None) (Inr qr0)
        \<in> set (tr @ rest)" using 2 by simp
    have in3: "(\<forall>ev \<in> set (tr @ rest). kind_of ev \<noteq> KMask)
          \<and> q = qr0\<lparr>query_time := query_cost env\<rparr>
        \<or> (\<exists>out. EvMask d s (qr0\<lparr>query_time := query_cost env\<rparr>) out \<in> set (tr @ rest)
              \<and> q = left_for_audit env out)"
      using 3 rest by auto
    show ?thesis unfolding eq using in2 in3 4 5 by blast
  qed
  show ?thesis
  proof (cases env req rule: query_download_run)
    case (Returned n inst sql0 db res tr)
    from lift[OF Returned(5), of "[]"] Returned(6) show ?thesis by simp
  next
    case (Exported n inst sql0 db res tr)
    from lift[OF Exported(5), of "[]"] Exported(6) show ?thesis by simp
  next
    case (Caught n inst sql0 db e s' res tr)
    from lift[OF Caught(5), of "[EvLogQueryError s' e]"] Caught(6) show ?thesis by simp
  qed (use assms in \<open>simp_all add: reject_def\<close>)
qed

text \<open>
  Claim C5, as stated, fails in four ways. The limit that counts is the one handed to the
  execution, not the requested one: with a requested limit of 10, a granted limit of 5 and
  37 affected rows \<open>query\<close> logs 5, and for an EXPLAIN with the same request it logs 37.
  The test for an error is made on the result set object when the record is built: with
  \<open>query_check\<close> enabled, a masking call that writes an error on the object makes the
  record hold 0 after an execution that returned no error. And \<open>query_download\<close> counts
  with the configured download limit: with the limit 10 requested and granted and a
  download limit of 20 it logs 20.
\<close>

theorem logged_rows_counterexample:
  "py_int (limit_arg (stub_request ''select id from t'' ''10'')) = Inr 10
   \<and> affected_rows stub_rows = 37 \<and> \<not> has_error stub_rows
   \<and> logged_rows (trace (query
        (stub_env [] 5 (stub_engine False (Some 7) (Inr stub_rows) Inr))
        (stub_request ''select id from t'' ''10''))) = [5]
   \<and> logged_rows (trace (query
        (stub_env [] 5 (stub_engine False (Some 7) (Inr stub_rows) Inr))
        (stub_request ''explain select id from t'' ''10''))) = [37]
   \<and> logged_rows (trace (query
        (stub_env [(''data_masking'', PBool True), (''query_check'', PBool True)] 10
           (writing_engine False (Some 7) (Inr stub_rows) error_writing_masker))
        (stub_request ''select id from t'' ''10''))) = [0]
   \<and> logged_rows (trace (query_download
        (stub_env [(''download_limit'', PInt 20)] 10
           (stub_engine False (Some 7) (Inr stub_rows) Inr))
        (stub_request ''select id from t'' ''10''))) = [20]"
  by (simp add: stub_defs parse_defs block_defs view_defs logged_rows_def)

text \<open>
  Claim C5, amended. In both views, every audit record follows an execution that returned
  a result set, and its \<open>effect_row\<close> is 0 if the result set object carries an error when
  the record is built; else the affected-row count of the object if the limit handed to the
  execution is 0; else the minimum of that limit and the affected-row count. The object is
  the executed result set, with its elapsed time, when masking was not called, and what the
  masking stage left of it otherwise (\<open>left_for_audit\<close>); an execution that returned an
  error is always logged with 0. The limit handed to the execution is, in \<open>query\<close>, the
  limit the privilege evaluator granted, or 0 for an EXPLAIN, and in \<open>query_download\<close>
  the configured \<open>download_limit\<close>, read as an integer.
\<close>

theorem logged_row_count:
  "(EvAuditSave lg sv \<in> set (trace (query env req)) \<longrightarrow>
      (\<exists>d s0 m p s qr0 q.
          EvPrivCheck d s0 m (Inr p) \<in> set (trace (query env req))
        \<and> EvExecute d s (PInt (if is_explain s0 then 0 else priv_limit_num p)) (Inr qr0)
            \<in> set (trace (query env req))
        \<and> ((\<forall>ev \<in> set (trace (query env req)). kind_of ev \<noteq> KMask)
              \<and> q = qr0\<lparr>query_time := query_cost env\<rparr>
            \<or> (\<exists>out. EvMask d s (qr0\<lparr>query_time := query_cost env\<rparr>) out
                        \<in> set (trace (query env req))
                  \<and> q = left_for_audit env out))
        \<and> effect_row lg =
            (if has_error q then 0
             else if (if is_explain s0 then 0 else priv_limit_num p) = 0 then affected_rows q
             else min (if is_explain s0 then 0 else priv_limit_num p) (affected_rows q))
        \<and> (has_error qr0 \<longrightarrow> effect_row lg = 0)))
   \<and> (EvAuditSave lg sv \<in> set (trace (query_download env req)) \<longrightarrow>
      (\<exists>d s qr0 q.
          EvExecute d s (config_get env ''download_limit'' None) (Inr qr0)
            \<in> set (trace (query_download env req))
        \<and> ((\<forall>ev \<in> set (trace (query_download env req)). kind_of ev \<noteq> KMask)
              \<and> q = qr0\<lparr>query_time := query_cost env\<rparr>
            \<or> (\<exists>out. EvMask d s (qr0\<lparr>query_time := query_cost env\<rparr>) out
                        \<in> set (trace (query_download env req))
                  \<and> q = left_for_audit env out))
        \<and> (if has_error q then effect_row lg = 0
            else \<exists>k. py_int (config_get env ''download_limit'' None) = Inr k
              \<and> effect_row lg = (if k = 0 then affected_rows q else min k (affected_rows q)))
        \<and> (has_error qr0 \<longrightarrow> effect_row lg = 0)))"
  using query_logged[of lg sv env req] query_download_logged[of lg sv env req] by blast

theorem logged_row_count_witness:
  "EvAuditSave
     (make_log \<lparr>username = ''u1'', display = ''User One''\<rparr>
        \<lparr>inst_id = 1, inst_name = ''mysql01''\<rparr> ''online_query'' ''sales''
        ''select id from t'' 5 True (stub_rows\<lparr>query_time := 3\<rparr>)) None
     \<in> set (trace (query (stub_env [] 5 (stub_engine False (Some 7) (Inr stub_rows) Inr))
          (stub_request ''select id from t'' ''10'')))
   \<and> effect_row
       (make_log \<lparr>username = ''u1'', display = ''User One''\<rparr>
          \<lparr>inst_id = 1, inst_name = ''mysql01''\<rparr> ''online_query'' ''sales''
          ''select id from t'' 5 True (stub_rows\<lparr>query_time := 3\<rparr>)) = min 5 37
   \<and> EvAuditSave
     (make_log \<lparr>username = ''u1'', display = ''User One''\<rparr>
        \<lparr>inst_id = 1, inst_name = ''mysql01''\<rparr> ''download_query'' ''sales''
        ''select id from t'' 20 True (stub_rows\<lparr>query_time := 3\<rparr>)) None
     \<in> set (trace (query_download
          (stub_env [(''download_limit'', PInt 20)] 5
             (stub_engine False (Some 7) (Inr stub_rows) Inr))
          (stub_request ''select id from t'' ''10'')))
   \<and> effect_row
       (make_log \<lparr>username = ''u1'', display = ''User One''\<rparr>
          \<lparr>inst_id = 1, inst_name = ''mysql01''\<rparr> ''download_query'' ''sales''
          ''select id from t'' 20 True (stub_rows\<lparr>query_time := 3\<rparr>)) = min 20 37"
  using logged_row_count
    [where lg = "make_log \<lparr>username = ''u1'', display = ''User One''\<rparr>
                   \<lparr>inst_id = 1, inst_name = ''mysql01''\<rparr> ''online_query'' ''sales''
                   ''select id from t'' 5 True (stub_rows\<lparr>query_time := 3\<rparr>)"
       and sv = None
       and env = "stub_env [] 5 (stub_engine False (Some 7) (Inr stub_rows) Inr)"
       and req = "stub_request ''select id from t'' ''10''"]
    logged_row_count
    [where lg = "make_log \<lparr>username = ''u1'', display = ''User One''\<rparr>
                   \<lparr>inst_id = 1, inst_name = ''mysql01''\<rparr> ''download_query'' ''sales''
                   ''select id from t'' 20 True (stub_rows\<lparr>query_time := 3\<rparr>)"
       and sv = None
       and env = "stub_env [(''download_limit'', PInt 20)] 5
             (stub_engine False (Some 7) (Inr stub_rows) Inr)"
       and req = "stub_request ''select id from t'' ''10''"]
  by (simp add: stub_defs parse_defs block_defs view_defs)

section \<open>C6: a backend error and an unexpected failure\<close>

















section \<open>C7: a rejection by policy\<close>











section \<open>C8: what reaches the masking stage\<close>

lemma query_try_mask:
  assumes t: "query_try env req inst sql0 db n = (f, res, tr)"
    and m: "EvMask d s r out \<in> set tr"
  shows "\<not> has_error r \<and> truthy (config_get env ''data_masking'' None)
    \<and> (\<exists>l qr0. EvExecute d s l (Inr qr0) \<in> set tr \<and> \<not> has_error qr0
          \<and> r = qr0\<lparr>query_time := query_cost env\<rparr>)"
proof (cases env req inst sql0 db n rule: query_try_cases)
  case (Audited eng sql1 lim1 pc res trc lim2 sql2 qr sbm tre qr1 res1 trm fa res2 tra)
  have tr: "tr = trc @ [EvFilterSql sql1 lim2 (Inr sql2)] @ tre @ trm @ tra"
    using t Audited(7) by simp
  have "EvMask d s r out \<in> set trm"
    using m tr check_block_kinds[OF Audited(1)] execute_block_kinds[OF Audited(4)]
      audit_block_kinds[OF Audited(6)] by fastforce
  from masking_block_mask[OF Audited(5) this]
  have r: "d = db" "s = sql2" "r = qr" "\<not> has_error qr"
    "truthy (config_get env ''data_masking'' None)" by simp_all
  from execute_block_go[OF Audited(4)] obtain qr0 where
    q: "EvExecute db sql2 (PInt lim2) (Inr qr0) \<in> set tre"
      "qr = qr0\<lparr>query_time := query_cost env\<rparr>" by blast
  have "EvExecute d s (PInt lim2) (Inr qr0) \<in> set tr" using q(1) r tr by simp
  moreover have "\<not> has_error qr0" using r(4) q(2) by (simp add: has_error_query_time)
  ultimately show ?thesis using r q(2) by blast
qed (use assms in \<open>auto dest: check_block_kinds execute_block_kinds\<close>)

lemma query_download_try_mask:
  assumes t: "query_download_try env req inst sql0 db n = (f, res, tr)"
    and m: "EvMask d s r out \<in> set tr"
  shows "\<not> has_error r \<and> truthy (config_get env ''data_masking'' None)
    \<and> (\<exists>l qr0. EvExecute d s l (Inr qr0) \<in> set tr \<and> \<not> has_error qr0
          \<and> r = qr0\<lparr>query_time := query_cost env\<rparr>)"
proof (cases env req inst sql0 db n rule: query_download_try_cases)
  case (Audited eng sql1 lim1 pc res trc lim2 sql2 sql3 qr sbm tre qr1 res1 trm fa res2 tra)
  let ?lim3 = "config_get env ''download_limit'' None"
  have tr: "tr = trc @ [EvFilterSql sql1 lim2 (Inr sql2), EvReplaceLimit sql2 ?lim3 (Inr sql3)]
      @ tre @ trm @ tra"
    using t Audited(8) by simp
  have "EvMask d s r out \<in> set trm"
    using m tr check_block_kinds[OF Audited(1)] execute_block_kinds[OF Audited(5)]
      audit_block_kinds[OF Audited(7)] by fastforce
  from masking_block_mask[OF Audited(6) this]
  have r: "d = db" "s = sql3" "r = qr" "\<not> has_error qr"
    "truthy (config_get env ''data_masking'' None)" by simp_all
  from execute_block_go[OF Audited(5)] obtain qr0 where
    q: "EvExecute db sql3 ?lim3 (Inr qr0) \<in> set tre"
      "qr = qr0\<lparr>query_time := query_cost env\<rparr>" by blast
  have "EvExecute d s ?lim3 (Inr qr0) \<in> set tr" using q(1) r tr by simp
  moreover have "\<not> has_error qr0" using r(4) q(2) by (simp add: has_error_query_time)
  ultimately show ?thesis using r q(2) by blast
qed (use assms in \<open>auto dest: check_block_kinds execute_block_kinds\<close>)

text \<open>
  Claim C8. In both views, whenever \<open>query_masking\<close> is called, the result set handed
  to it carries no error and \<open>data_masking\<close> is enabled; the result set is the one the
  execution of the same statement returned, with its elapsed time filled in.
\<close>

theorem masking_only_after_success:
  assumes "tr = trace (query env req) \<or> tr = trace (query_download env req)"
    and "EvMask d s r out \<in> set tr"
  shows "\<not> has_error r \<and> truthy (config_get env ''data_masking'' None)
    \<and> (\<exists>l qr0. EvExecute d s l (Inr qr0) \<in> set tr \<and> \<not> has_error qr0
          \<and> r = qr0\<lparr>query_time := query_cost env\<rparr>)"
  using assms(1)
proof
  assume tr: "tr = trace (query env req)"
  show ?thesis
  proof (cases env req rule: query_run)
    case (Finished n inst sql0 db f res tr')
    with tr assms(2) query_try_mask[OF Finished(5), of d s r out] show ?thesis by simp
  next
    case (Caught n inst sql0 db e s' res tr')
    with tr assms(2) query_try_mask[OF Caught(5), of d s r out] show ?thesis by auto
  qed (use tr assms(2) in \<open>simp_all add: reject_def\<close>)
next
  assume tr: "tr = trace (query_download env req)"
  show ?thesis
  proof (cases env req rule: query_download_run)
    case (Returned n inst sql0 db res tr')
    with tr assms(2) query_download_try_mask[OF Returned(5), of d s r out] show ?thesis by simp
  next
    case (Exported n inst sql0 db res tr')
    with tr assms(2) query_download_try_mask[OF Exported(5), of d s r out] show ?thesis by simp
  next
    case (Caught n inst sql0 db e s' res tr')
    with tr assms(2) query_download_try_mask[OF Caught(5), of d s r out] show ?thesis by auto
  qed (use tr assms(2) in \<open>simp_all add: reject_def\<close>)
qed

theorem masking_only_after_success_witness:
  "EvMask ''sales'' ''select id from t'' (stub_rows\<lparr>query_time := 3\<rparr>)
      (Inr (Another (stub_rows\<lparr>query_time := 3, is_masked := True\<rparr>)),
       stub_rows\<lparr>query_time := 3\<rparr>)
     \<in> set (trace (query
          (stub_env [(''data_masking'', PBool True)] 5
             (stub_engine False (Some 7) (Inr stub_rows) (\<lambda>r. Inr (r\<lparr>is_masked := True\<rparr>))))
          (stub_request ''select id from t'' ''10'')))
   \<and> \<not> has_error (stub_rows\<lparr>query_time := 3\<rparr>)
   \<and> truthy (stub_config [(''data_masking'', PBool True)] ''data_masking'' None)"
  using masking_only_after_success
    [of "trace (query
          (stub_env [(''data_masking'', PBool True)] 5
             (stub_engine False (Some 7) (Inr stub_rows) (\<lambda>r. Inr (r\<lparr>is_masked := True\<rparr>))))
          (stub_request ''select id from t'' ''10''))"
      "stub_env [(''data_masking'', PBool True)] 5
             (stub_engine False (Some 7) (Inr stub_rows) (\<lambda>r. Inr (r\<lparr>is_masked := True\<rparr>)))"
      "stub_request ''select id from t'' ''10''"
      "''sales''" "''select id from t''" "stub_rows\<lparr>query_time := 3\<rparr>"
      "(Inr (Another (stub_rows\<lparr>query_time := 3, is_masked := True\<rparr>)),
        stub_rows\<lparr>query_time := 3\<rparr>)"]
  by (simp add: stub_defs parse_defs block_defs view_defs)

section \<open>C9: the limit of an EXPLAIN\<close>

lemma staged_explain:
  assumes c: "check_block env u inst db sql0 n res0 = (fc, res, trc)"
    and tr: "tr = trc @ [EvFilterSql sql1 (if is_explain sql1 then 0 else lim1) fo'] @ mid
               @ tre @ rest"
    and mid: "\<And>ev. ev \<in> set mid \<Longrightarrow> kind_of ev \<noteq> KFilterSql \<and> kind_of ev \<noteq> KExecute"
    and e: "\<And>ev. ev \<in> set tre \<Longrightarrow> kind_of ev \<noteq> KFilterSql"
      "\<And>d s l out. EvExecute d s l out \<in> set tre \<Longrightarrow> l = lim"
    and rest: "\<And>ev. ev \<in> set rest \<Longrightarrow> kind_of ev \<noteq> KFilterSql \<and> kind_of ev \<noteq> KExecute"
    and fl: "EvFilterSql s0 m fo \<in> set tr" and ex: "is_explain s0"
  shows "m = 0 \<and> is_explain sql1 \<and> (\<forall>d s l out. EvExecute d s l out \<in> set tr \<longrightarrow> l = lim)"
proof -
  have "EvFilterSql s0 m fo = EvFilterSql sql1 (if is_explain sql1 then 0 else lim1) fo'"
    using fl tr check_block_kinds[OF c] mid e(1) rest by fastforce
  then have m: "m = 0" "is_explain sql1" using ex by auto
  have "l = lim" if "EvExecute d s l out \<in> set tr" for d s l out
  proof -
    have "EvExecute d s l out \<in> set tre"
      using that tr check_block_kinds[OF c] mid rest by fastforce
    then show ?thesis by (rule e(2))
  qed
  with m show ?thesis by blast
qed

lemma query_try_explain:
  assumes t: "query_try env req inst sql0 db n = (f, res, tr)"
    and fl: "EvFilterSql s0 m fo \<in> set tr" and ex: "is_explain s0"
  shows "m = 0 \<and> (\<forall>d s l out. EvExecute d s l out \<in> set tr \<longrightarrow> l = PInt 0)"
proof (cases env req inst sql0 db n rule: query_try_cases)
  case (FilterRaise eng sql1 lim1 pc res trc lim2 e)
  have "m = 0 \<and> is_explain sql1
      \<and> (\<forall>d s l out. EvExecute d s l out \<in> set tr \<longrightarrow> l = PInt 0)"
    by (rule staged_explain[OF FilterRaise(1) _ _ _ _ _ fl ex,
          where ?sql1.0 = sql1 and ?lim1.0 = lim1 and fo' = "Inl e" and mid = "[]" and tre = "[]"
            and rest = "[]"])
      (use t FilterRaise(2,4) in simp_all)
  then show ?thesis by blast
next
  case (ExecRaise eng sql1 lim1 pc res trc lim2 sql2 e s' tre)
  have *: "m = 0 \<and> is_explain sql1
      \<and> (\<forall>d s l out. EvExecute d s l out \<in> set tr \<longrightarrow> l = PInt lim2)"
  proof (rule staged_explain[OF ExecRaise(1) _ _ _ _ _ fl ex,
        where ?sql1.0 = sql1 and ?lim1.0 = lim1 and fo' = "Inr sql2" and mid = "[]" and tre = tre
          and rest = "[]"])
    show "tr = trc @ [EvFilterSql sql1 (if is_explain sql1 then 0 else lim1) (Inr sql2)] @ []
        @ tre @ []"
      using t ExecRaise(2,5) by simp
    show "kind_of ev \<noteq> KFilterSql" if "ev \<in> set tre" for ev
      using that execute_block_kinds[OF ExecRaise(4)] by fastforce
    show "l = PInt lim2" if "EvExecute d s l out \<in> set tre" for d s l out
      using execute_block_exec[OF ExecRaise(4) that] by simp
  qed simp_all
  then have "lim2 = 0" using ExecRaise(2) by simp
  with * show ?thesis by simp
next
  case (Audited eng sql1 lim1 pc res trc lim2 sql2 qr sbm tre qr1 res1 trm fa res2 tra)
  have *: "m = 0 \<and> is_explain sql1
      \<and> (\<forall>d s l out. EvExecute d s l out \<in> set tr \<longrightarrow> l = PInt lim2)"
  proof (rule staged_explain[OF Audited(1) _ _ _ _ _ fl ex,
        where ?sql1.0 = sql1 and ?lim1.0 = lim1 and fo' = "Inr sql2" and mid = "[]" and tre = tre
          and rest = "trm @ tra"])
    show "tr = trc @ [EvFilterSql sql1 (if is_explain sql1 then 0 else lim1) (Inr sql2)] @ []
        @ tre @ trm @ tra"
      using t Audited(2,7) by simp
    show "kind_of ev \<noteq> KFilterSql" if "ev \<in> set tre" for ev
      using that execute_block_kinds[OF Audited(4)] by fastforce
    show "l = PInt lim2" if "EvExecute d s l out \<in> set tre" for d s l out
      using execute_block_exec[OF Audited(4) that] by simp
    show "kind_of ev \<noteq> KFilterSql \<and> kind_of ev \<noteq> KExecute" if "ev \<in> set (trm @ tra)" for ev
      using that masking_block_kinds[OF Audited(5)] audit_block_kinds[OF Audited(6)]
      by fastforce
  qed simp_all
  then have "lim2 = 0" using Audited(2) by simp
  with * show ?thesis by simp
qed (use t fl in \<open>auto dest: check_block_kinds\<close>)

lemma query_download_try_explain:
  assumes t: "query_download_try env req inst sql0 db n = (f, res, tr)"
    and fl: "EvFilterSql s0 m fo \<in> set tr" and ex: "is_explain s0"
  shows "m = 0 \<and> (\<forall>d s l out. EvExecute d s l out \<in> set tr
            \<longrightarrow> l = config_get env ''download_limit'' None)"
proof (cases env req inst sql0 db n rule: query_download_try_cases)
  case (FilterRaise eng sql1 lim1 pc res trc lim2 e)
  have "m = 0 \<and> is_explain sql1
      \<and> (\<forall>d s l out. EvExecute d s l out \<in> set tr
            \<longrightarrow> l = config_get env ''download_limit'' None)"
    by (rule staged_explain[OF FilterRaise(1) _ _ _ _ _ fl ex,
          where ?sql1.0 = sql1 and ?lim1.0 = lim1 and fo' = "Inl e" and mid = "[]" and tre = "[]"
            and rest = "[]"])
      (use t FilterRaise(2,4) in simp_all)
  then show ?thesis by blast
next
  case (ReplaceRaise eng sql1 lim1 pc res trc lim2 sql2 e)
  let ?lim3 = "config_get env ''download_limit'' None"
  have "m = 0 \<and> is_explain sql1
      \<and> (\<forall>d s l out. EvExecute d s l out \<in> set tr \<longrightarrow> l = ?lim3)"
    by (rule staged_explain[OF ReplaceRaise(1) _ _ _ _ _ fl ex,
          where ?sql1.0 = sql1 and ?lim1.0 = lim1 and fo' = "Inr sql2"
            and mid = "[EvReplaceLimit sql2 ?lim3 (Inl e)]" and tre = "[]" and rest = "[]"])
      (use t ReplaceRaise(2,5) in auto)
  then show ?thesis by blast
next
  case (ExecRaise eng sql1 lim1 pc res trc lim2 sql2 sql3 e s' tre)
  let ?lim3 = "config_get env ''download_limit'' None"
  have "m = 0 \<and> is_explain sql1
      \<and> (\<forall>d s l out. EvExecute d s l out \<in> set tr \<longrightarrow> l = ?lim3)"
  proof (rule staged_explain[OF ExecRaise(1) _ _ _ _ _ fl ex,
        where ?sql1.0 = sql1 and ?lim1.0 = lim1 and fo' = "Inr sql2"
          and mid = "[EvReplaceLimit sql2 ?lim3 (Inr sql3)]" and tre = tre and rest = "[]"])
    show "tr = trc @ [EvFilterSql sql1 (if is_explain sql1 then 0 else lim1) (Inr sql2)]
        @ [EvReplaceLimit sql2 ?lim3 (Inr sql3)] @ tre @ []"
      using t ExecRaise(2,6) by simp
    show "kind_of ev \<noteq> KFilterSql" if "ev \<in> set tre" for ev
      using that execute_block_kinds[OF ExecRaise(5)] by fastforce
    show "l = ?lim3" if "EvExecute d s l out \<in> set tre" for d s l out
      using execute_block_exec[OF ExecRaise(5) that] by simp
  qed auto
  then show ?thesis by blast
next
  case (Audited eng sql1 lim1 pc res trc lim2 sql2 sql3 qr sbm tre qr1 res1 trm fa res2 tra)
  let ?lim3 = "config_get env ''download_limit'' None"
  have "m = 0 \<and> is_explain sql1
      \<and> (\<forall>d s l out. EvExecute d s l out \<in> set tr \<longrightarrow> l = ?lim3)"
  proof (rule staged_explain[OF Audited(1) _ _ _ _ _ fl ex,
        where ?sql1.0 = sql1 and ?lim1.0 = lim1 and fo' = "Inr sql2"
          and mid = "[EvReplaceLimit sql2 ?lim3 (Inr sql3)]" and tre = tre
          and rest = "trm @ tra"])
    show "tr = trc @ [EvFilterSql sql1 (if is_explain sql1 then 0 else lim1) (Inr sql2)]
        @ [EvReplaceLimit sql2 ?lim3 (Inr sql3)] @ tre @ trm @ tra"
      using t Audited(2,8) by simp
    show "kind_of ev \<noteq> KFilterSql" if "ev \<in> set tre" for ev
      using that execute_block_kinds[OF Audited(5)] by fastforce
    show "l = ?lim3" if "EvExecute d s l out \<in> set tre" for d s l out
      using execute_block_exec[OF Audited(5) that] by simp
    show "kind_of ev \<noteq> KFilterSql \<and> kind_of ev \<noteq> KExecute" if "ev \<in> set (trm @ tra)" for ev
      using that masking_block_kinds[OF Audited(6)] audit_block_kinds[OF Audited(7)]
      by fastforce
  qed auto
  then show ?thesis by blast
qed (use t fl in \<open>auto dest: check_block_kinds\<close>)

text \<open>
  Claim C9, as stated, fails in \<open>query_download\<close>: for an EXPLAIN the execution receives
  the download ceiling 5000, not 0.
\<close>

theorem explain_download_limit_counterexample:
  "is_explain ''EXPLAIN select id from t''
   \<and> executed_limits (trace (query_download
        (stub_env [(''download_limit'', PInt 5000)] 5
           (stub_engine False (Some 7) (Inr stub_rows) Inr))
        (stub_request ''EXPLAIN select id from t'' ''10''))) = [PInt 5000]"
  by (simp add: stub_defs parse_defs block_defs view_defs executed_limits_def)

text \<open>
  Claim C9, amended. For a checked statement that matches the EXPLAIN prefix
  case-insensitively, the limit handed to \<open>filter_sql\<close> is 0 in both views; the limit
  handed to the execution is 0 in \<open>query\<close> and the configured \<open>download_limit\<close> in
  \<open>query_download\<close>.
\<close>

theorem explain_limit_zero:
  assumes "is_explain s0"
  shows "(EvFilterSql s0 m fo \<in> set (trace (query env req)) \<longrightarrow>
            m = 0 \<and> (\<forall>d s l out. EvExecute d s l out \<in> set (trace (query env req))
                        \<longrightarrow> l = PInt 0))
    \<and> (EvFilterSql s0 m fo \<in> set (trace (query_download env req)) \<longrightarrow>
          m = 0 \<and> (\<forall>d s l out. EvExecute d s l out \<in> set (trace (query_download env req))
                      \<longrightarrow> l = config_get env ''download_limit'' None))"
proof -
  have q: "m = 0 \<and> (\<forall>d s l out. EvExecute d s l out \<in> set (trace (query env req))
                        \<longrightarrow> l = PInt 0)"
    if fl: "EvFilterSql s0 m fo \<in> set (trace (query env req))"
  proof (cases env req rule: query_run)
    case (Finished n inst sql0 db f res tr)
    then have eq: "trace (query env req) = tr" by simp
    show ?thesis using query_try_explain[OF Finished(5) _ assms] fl unfolding eq by blast
  next
    case (Caught n inst sql0 db e s' res tr)
    then have eq: "trace (query env req) = tr @ [EvLogQueryError s' e]" by simp
    have "EvFilterSql s0 m fo \<in> set tr" using fl eq by simp
    from query_try_explain[OF Caught(5) this assms] show ?thesis
      unfolding eq by auto
  qed (use fl in \<open>simp_all add: reject_def\<close>)
  have dl: "m = 0 \<and> (\<forall>d s l out. EvExecute d s l out \<in> set (trace (query_download env req))
                      \<longrightarrow> l = config_get env ''download_limit'' None)"
    if fl: "EvFilterSql s0 m fo \<in> set (trace (query_download env req))"
  proof (cases env req rule: query_download_run)
    case (Returned n inst sql0 db res tr)
    then have eq: "trace (query_download env req) = tr" by simp
    show ?thesis
      using query_download_try_explain[OF Returned(5) _ assms] fl unfolding eq by blast
  next
    case (Exported n inst sql0 db res tr)
    then have eq: "trace (query_download env req) = tr" by simp
    show ?thesis
      using query_download_try_explain[OF Exported(5) _ assms] fl unfolding eq by blast
  next
    case (Caught n inst sql0 db e s' res tr)
    then have eq: "trace (query_download env req) = tr @ [EvLogQueryError s' e]" by simp
    have "EvFilterSql s0 m fo \<in> set tr" using fl eq by simp
    from query_download_try_explain[OF Caught(5) this assms] show ?thesis
      unfolding eq by auto
  qed (use fl in \<open>simp_all add: reject_def\<close>)
  from q dl show ?thesis by blast
qed

theorem explain_limit_zero_witness:
  "is_explain ''Explain select id from t''
   \<and> EvFilterSql ''Explain select id from t'' 0 (Inr ''Explain select id from t'')
     \<in> set (trace (query (stub_env [] 5 (stub_engine False (Some 7) (Inr stub_rows) Inr))
          (stub_request ''Explain select id from t'' ''10'')))
   \<and> executed_limits (trace (query
        (stub_env [] 5 (stub_engine False (Some 7) (Inr stub_rows) Inr))
        (stub_request ''Explain select id from t'' ''10''))) = [PInt 0]"
  using explain_limit_zero
    [where ?s0.0 = "''Explain select id from t''" and m = 0
       and fo = "Inr ''Explain select id from t''"
       and env = "stub_env [] 5 (stub_engine False (Some 7) (Inr stub_rows) Inr)"
       and req = "stub_request ''Explain select id from t'' ''10''"]
  by (simp add: stub_defs parse_defs block_defs view_defs executed_limits_def)

section \<open>C10: a limit that is not a number\<close>

text \<open>
  Claim C10. With \<open>limit_num = "abc"\<close> both views leave through the \<open>ValueError\<close> of
  \<open>int()\<close>, raised before the \<^verbatim>\<open>try\<close>: no collaborator is called and the caller
  gets no \<open>status\<close>/\<open>msg\<close> payload, whatever the collaborators and the other fields.
\<close>

theorem unparseable_limit_unhandled:
  "query env (req\<lparr>limit_num := Some (PStr ''abc'')\<rparr>)
     = \<lparr>response = Unhandled ValueError, trace = []\<rparr>
   \<and> query_download env (req\<lparr>limit_num := Some (PStr ''abc'')\<rparr>)
     = \<lparr>response = Unhandled ValueError, trace = []\<rparr>"
  by (simp add: query_def query_download_def limit_arg_def parse_int_def strip_def
      is_space_def parse_nat_def is_digit_def)

end
